theory Spec2Isabelle
  imports Complex_Main "HOL-Library.Multiset"
begin

section \<open>The Coinbene exchange wrapper (exchanges/coinbene/coinbene_wrapper.go)\<close>

text \<open>
  A shallow embedding of the wrapper methods of \<^verbatim>\<open>coinbene_wrapper.go\<close>. The wrapper
  calls REST endpoints of the exchange, helpers of the embedded \<^verbatim>\<open>exchange.Base\<close> and
  the order book, ticker and trade services; none of these is part of the file. REST
  endpoints and helpers are parameters (the records \<open>rest_api\<close> and \<open>deps\<close>); every REST
  call is written to a request log carried by the state \<open>world\<close>, and the response of a
  call may depend on how many requests went before it.
\<close>

subsection \<open>Values\<close>

text \<open>A Go \<^verbatim>\<open>error\<close> value. \<open>Error m\<close> is what \<^verbatim>\<open>errors.New\<close> and \<^verbatim>\<open>fmt.Errorf\<close> build
  with message \<open>m\<close>; \<open>ErrNotYetSynced\<close> and \<open>CrossedBookError\<close> are the "not yet synced"
  indicator and the crossed-book error of the order book service.\<close>

datatype error = Error string | ErrNotYetSynced | CrossedBookError

text \<open>\<^verbatim>\<open>float64\<close> prices and amounts are read as rationals (every finite float is one;
  NaN and the infinities are outside the model). \<^verbatim>\<open>time.Time\<close> is an instant, counted
  in nanoseconds.\<close>

type_synonym float64 = rat
type_synonym time = int

text \<open>\<^verbatim>\<open>asset.Item\<close> is a string type, printed by \<^verbatim>\<open>%s\<close> as the string itself.\<close>

type_synonym Item = string

text \<open>Modelled from the spec: the constants \<^verbatim>\<open>asset.Spot\<close> and \<^verbatim>\<open>asset.PerpetualSwap\<close> are
  declared in exchanges/asset, which is missing from the sources. The spec has the asset
  type only as a component of the book key; the two constants are two different strings
  (they are the cases of one \<^verbatim>\<open>switch\<close>), and only their being different is used below.\<close>

definition Spot :: Item where
  "Spot = ''spot''"

definition PerpetualSwap :: Item where
  "PerpetualSwap = ''perpetualswap''"

text \<open>\<^verbatim>\<open>currency.Pair\<close>.\<close>

record currency_Pair =
  Base :: string
  Quote :: string
  Delimiter :: string

text \<open>Modelled from the spec: \<^verbatim>\<open>currency.Pair.String\<close> is missing from the sources. The
  spec leaves the formatting of pairs to the wrapper; the string of a pair is its base,
  its delimiter and its quote, and no property below depends on it.\<close>

definition pair_String :: "currency_Pair \<Rightarrow> string" where
  "pair_String p = Base p @ Delimiter p @ Quote p"

text \<open>\<^verbatim>\<open>orderbook.Item\<close> and \<^verbatim>\<open>orderbook.Base\<close>, with the fields the wrapper sets.\<close>

record orderbook_Item =
  Price :: float64
  Amount :: float64
  OrderCount :: int

record orderbook_Base =
  Exchange :: string
  book_Pair :: currency_Pair
  Asset :: Item
  VerifyOrderbook :: bool
  Bids :: "orderbook_Item list"
  Asks :: "orderbook_Item list"

text \<open>\<^verbatim>\<open>ticker.Price\<close>.\<close>

record ticker_Price =
  tp_Pair :: currency_Pair
  tp_Last :: float64
  tp_High :: float64
  tp_Low :: float64
  tp_Bid :: float64
  tp_Ask :: float64
  tp_Volume :: float64
  tp_LastUpdated :: time
  tp_ExchangeName :: string
  tp_AssetType :: Item

text \<open>The response types of the REST endpoints (coinbene_types.go), with the fields
  the wrapper reads.\<close>

record OrderbookItem =
  obi_Price :: float64
  obi_Amount :: float64
  obi_Count :: int

record Orderbook =
  ob_Asks :: "OrderbookItem list"
  ob_Bids :: "OrderbookItem list"

record TickerData =
  td_Symbol :: string
  td_LatestPrice :: float64
  td_DailyHigh :: float64
  td_DailyLow :: float64
  td_BestBid :: float64
  td_BestAsk :: float64
  td_DailyVolume :: float64

record SwapTicker =
  st_LastPrice :: float64
  st_High24Hour :: float64
  st_Low24Hour :: float64
  st_BestBidPrice :: float64
  st_BestAskPrice :: float64
  st_Volume24Hour :: float64
  st_Timestamp :: time

record PairData =
  pd_Symbol :: string

record Instrument =
  InstrumentID :: currency_Pair

record currency_PairFormat =
  pf_Uppercase :: bool
  pf_Delimiter :: string

text \<open>\<^verbatim>\<open>order.Side\<close> and \<^verbatim>\<open>order.Type\<close> are string types, \<^verbatim>\<open>String()\<close> being the
  string itself.\<close>

type_synonym order_Side = string

text \<open>Modelled from the spec: the constants \<^verbatim>\<open>order.Buy\<close> and \<^verbatim>\<open>order.Sell\<close> are declared
  in exchanges/order, which is missing from the sources. The spec has the side only as a
  field of a trade; the two constants are two different strings, and only their being
  different is used below.\<close>

definition Buy :: order_Side where
  "Buy = ''BUY''"

definition Sell :: order_Side where
  "Sell = ''SELL''"

text \<open>One trade of the response of \<^verbatim>\<open>GetTrades\<close>, and \<^verbatim>\<open>trade.Data\<close>.\<close>

record TradeItem =
  ti_Direction :: string
  ti_Price :: float64
  ti_Volume :: float64
  ti_TradeTime :: time

record trade_Data =
  tr_Exchange :: string
  tr_CurrencyPair :: currency_Pair
  tr_AssetType :: Item
  tr_Side :: order_Side
  tr_Price :: float64
  tr_Amount :: float64
  tr_Timestamp :: time

text \<open>\<^verbatim>\<open>order.Submit\<close> and \<^verbatim>\<open>order.SubmitResponse\<close>, the response of \<^verbatim>\<open>PlaceSpotOrder\<close>,
  \<^verbatim>\<open>order.Cancel\<close>, one order of \<^verbatim>\<open>OrdersInfo\<close> and \<^verbatim>\<open>order.CancelAllResponse\<close>.\<close>

record order_Submit =
  s_Pair :: currency_Pair
  s_Side :: order_Side
  s_Type :: string
  s_Price :: float64
  s_Amount :: float64
  s_ClientID :: string

record order_SubmitResponse =
  IsOrderPlaced :: bool
  sr_OrderID :: string

record OrderPlacementResponse =
  opr_OrderID :: string

record order_Cancel =
  oc_Pair :: currency_Pair
  oc_AssetType :: Item

record OrderInfo =
  OrderID :: string

record order_CancelAllResponse =
  Status :: "string \<Rightarrow> string option"

text \<open>Candles: a field of a row of \<^verbatim>\<open>CandleResponse.Data\<close> is an \<^verbatim>\<open>interface{}\<close> holding a
  decoded JSON value; \<^verbatim>\<open>kline.Interval\<close> is a duration in nanoseconds.\<close>

datatype json = JString string | JNumber float64 | JBool bool | JNull | JArray "json list"

record CandleResponse =
  Data :: "json list list"

type_synonym kline_Interval = int

record kline_Candle =
  Time :: time
  Open :: float64
  High :: float64
  Low :: float64
  Close :: float64
  Volume :: float64

record kline_Item =
  k_Exchange :: string
  k_Pair :: currency_Pair
  k_Asset :: Item
  k_Interval :: kline_Interval
  Candles :: "kline_Candle list"

text \<open>\<^verbatim>\<open>config.Exchange\<close>, \<^verbatim>\<open>stream.WebsocketSetup\<close> (without its function-valued fields)
  and \<^verbatim>\<open>stream.ConnectionSetup\<close>.\<close>

record config_Exchange =
  cfg_Enabled :: bool
  cfg_WebsocketResponseCheckTimeout :: int
  cfg_WebsocketResponseMaxLimit :: int

record WebsocketSetup =
  ExchangeConfig :: config_Exchange
  DefaultURL :: string
  RunningURL :: string
  SortBuffer :: bool

record ConnectionSetup =
  ResponseCheckTimeout :: int
  ResponseMaxLimit :: int

datatype ws_call = WsSetup WebsocketSetup | WsSetupNewConnection ConnectionSetup

datatype exchange_URL = RestSpot | RestSwap | WebsocketSpot

record currency_PairStore =
  RequestFormat :: currency_PairFormat
  ConfigFormat :: currency_PairFormat

subsection \<open>Requests, the state and the parameters\<close>

text \<open>One constructor per REST endpoint the wrapper calls, with the arguments it
  passes.\<close>

datatype request =
    ReqGetAllPairs
  | ReqGetSwapInstruments
  | ReqGetTickers
  | ReqGetSwapTickers
  | ReqGetOrderbook string nat
  | ReqGetSwapOrderbook string nat
  | ReqGetTrades string nat
  | ReqPlaceSpotOrder float64 float64 string string string string int
  | ReqFetchOpenSpotOrders string
  | ReqCancelSpotOrder string
  | ReqGetKlines string time time string
  | ReqGetSwapKlines string time time string

type_synonym book_key = "string \<times> currency_Pair \<times> Item"

record world =
  requests :: "request list"
  books :: "book_key \<Rightarrow> orderbook_Base option"
  tickers :: "book_key \<Rightarrow> ticker_Price option"

text \<open>The REST endpoints of coinbene.go that the wrapper calls. The last argument of
  each is the number of requests issued before the call.\<close>

record rest_api =
  GetAllPairs :: "nat \<Rightarrow> error + PairData list"
  GetSwapInstruments :: "nat \<Rightarrow> error + Instrument list"
  GetTickers :: "nat \<Rightarrow> error + TickerData list"
  GetSwapTickers :: "nat \<Rightarrow> error + (string \<Rightarrow> SwapTicker option)"
  GetOrderbook :: "string \<Rightarrow> nat \<Rightarrow> nat \<Rightarrow> error + Orderbook"
  GetSwapOrderbook :: "string \<Rightarrow> nat \<Rightarrow> nat \<Rightarrow> error + Orderbook"
  GetTrades :: "string \<Rightarrow> nat \<Rightarrow> nat \<Rightarrow> error + TradeItem list"
  PlaceSpotOrder ::
    "float64 \<Rightarrow> float64 \<Rightarrow> string \<Rightarrow> string \<Rightarrow> string \<Rightarrow> string \<Rightarrow> int \<Rightarrow> nat
       \<Rightarrow> error + OrderPlacementResponse"
  FetchOpenSpotOrders :: "string \<Rightarrow> nat \<Rightarrow> error + OrderInfo list"
  CancelSpotOrder :: "string \<Rightarrow> nat \<Rightarrow> error + string"
  GetKlines :: "string \<Rightarrow> time \<Rightarrow> time \<Rightarrow> string \<Rightarrow> nat \<Rightarrow> error + CandleResponse"
  GetSwapKlines :: "string \<Rightarrow> time \<Rightarrow> time \<Rightarrow> string \<Rightarrow> nat \<Rightarrow> error + CandleResponse"

text \<open>Issuing a request: the response is the endpoint's answer at this position of the
  log, and the request is appended to the log.\<close>

definition call :: "request \<Rightarrow> (nat \<Rightarrow> error + 'a) \<Rightarrow> world \<Rightarrow> (error + 'a) \<times> world" where
  "call r f w = (f (length (requests w)), w\<lparr>requests := requests w @ [r]\<rparr>)"

text \<open>The exchange: the fields of the embedded \<^verbatim>\<open>exchange.Base\<close> that the methods below
  read or write. \<^verbatim>\<open>Features\<close>, \<^verbatim>\<open>Requester\<close> and \<^verbatim>\<open>API.Endpoints\<close>, which \<^verbatim>\<open>SetDefaults\<close>
  also fills, are read by none of them and are left out.\<close>

record Coinbene =
  Name :: string
  Enabled :: bool
  Verbose :: bool
  RequiresKey :: bool
  RequiresSecret :: bool
  AssetPairFormats :: "Item \<Rightarrow> currency_PairStore option"
  CanVerifyOrderbook :: bool
  WebsocketResponseMaxLimit :: int
  WebsocketResponseCheckTimeout :: int
  WebsocketOrderbookBufferLimit :: int

text \<open>What the wrapper calls or reads outside its file: helpers of \<^verbatim>\<open>exchange.Base\<close>
  (they read the exchange's pair configuration, which the wrapper never inspects itself),
  of the currency, ticker, order, kline and stream packages, the two parsers of the
  standard library, and the constants of the exchanges package and of
  coinbene_websocket.go.\<close>

record deps =
  SupportsAsset :: "Item \<Rightarrow> bool"
  FormatExchangeCurrency :: "currency_Pair \<Rightarrow> Item \<Rightarrow> error + currency_Pair"
  GetEnabledPairs :: "Item \<Rightarrow> error + currency_Pair list"
  GetPairFormat :: "Item \<Rightarrow> bool \<Rightarrow> error + currency_PairFormat"
  pair_Format :: "currency_Pair \<Rightarrow> string \<Rightarrow> bool \<Rightarrow> currency_Pair"
  NewPairFromString :: "string \<Rightarrow> error + currency_Pair"
  pairs_Contains :: "currency_Pair list \<Rightarrow> currency_Pair \<Rightarrow> bool \<Rightarrow> bool"
  ticker_check :: "ticker_Price \<Rightarrow> error option"
  book_check :: "orderbook_Base \<Rightarrow> error option"
  AddTradesToBuffer :: "trade_Data list \<Rightarrow> error option"
  Submit_Validate :: "order_Submit \<Rightarrow> error option"
  Cancel_Validate :: "order_Cancel \<Rightarrow> error option"
  ValidateKline :: "currency_Pair \<Rightarrow> Item \<Rightarrow> kline_Interval \<Rightarrow> error option"
  time_Parse :: "string \<Rightarrow> error + time"
  ParseFloat :: "string \<Rightarrow> error + float64"
  DefaultWebsocketResponseMaxLimit :: int
  DefaultWebsocketResponseCheckTimeout :: int
  DefaultWebsocketOrderbookBufferLimit :: int
  wsContractURL :: string
  SetupDefaults :: "Coinbene \<Rightarrow> config_Exchange \<Rightarrow> Coinbene \<times> error option"
  GetURL :: "Coinbene \<Rightarrow> exchange_URL \<Rightarrow> error + string"
  Websocket_Setup :: "WebsocketSetup \<Rightarrow> error option"
  Websocket_SetupNewConnection :: "ConnectionSetup \<Rightarrow> error option"

text \<open>\<^verbatim>\<open>fmt.Errorf("%s does not support asset type %s", c.Name, a)\<close>.\<close>

definition unsupported_asset :: "Coinbene \<Rightarrow> Item \<Rightarrow> error" where
  "unsupported_asset c a = Error (Name c @ '' does not support asset type '' @ a)"

subsection \<open>The order book and ticker services\<close>

text \<open>\<^verbatim>\<open>Base.Process\<close>, \<^verbatim>\<open>Base.Verify\<close> and \<^verbatim>\<open>orderbook.Get\<close> of exchanges/orderbook are
  called by the wrapper and are missing from the sources; each is modelled from the spec.\<close>

text \<open>Modelled from the spec: the best bid of \<^verbatim>\<open>orderbook.Base\<close>, missing from the sources.
  The bid set is sorted descending by price, so the best bid is the highest bid price;
  an empty side has none.\<close>

fun best_bid :: "orderbook_Item list \<Rightarrow> float64 option" where
  "best_bid [] = None"
| "best_bid (x # xs) =
     (case best_bid xs of None \<Rightarrow> Some (Price x) | Some m \<Rightarrow> Some (max (Price x) m))"

text \<open>Modelled from the spec: the best ask of \<^verbatim>\<open>orderbook.Base\<close>, missing from the sources.
  The ask set is sorted ascending by price, so the best ask is the lowest ask price.\<close>

fun best_ask :: "orderbook_Item list \<Rightarrow> float64 option" where
  "best_ask [] = None"
| "best_ask (x # xs) =
     (case best_ask xs of None \<Rightarrow> Some (Price x) | Some m \<Rightarrow> Some (min (Price x) m))"

text \<open>Modelled from the spec: the crossed-book test of \<^verbatim>\<open>Base.Verify\<close>, missing from the
  sources. A crossed book is a state where best bid \<ge> best ask.\<close>

definition crossed :: "orderbook_Base \<Rightarrow> bool" where
  "crossed b =
     (case best_bid (Bids b) of
        None \<Rightarrow> False
      | Some bb \<Rightarrow> (case best_ask (Asks b) of None \<Rightarrow> False | Some ba \<Rightarrow> ba \<le> bb))"

text \<open>Modelled from the spec: the amount test of \<^verbatim>\<open>Base.Verify\<close>, missing from the sources.
  Verification asserts non-negative amounts.\<close>

definition negative_amount :: "orderbook_Base \<Rightarrow> bool" where
  "negative_amount b = list_ex (\<lambda>x. Amount x < 0) (Bids b @ Asks b)"

text \<open>Modelled from the spec: \<^verbatim>\<open>Base.Verify\<close>, missing from the sources. Verification,
  when enabled, asserts non-negative amounts and non-crossed best bid/ask.\<close>

definition Verify :: "orderbook_Base \<Rightarrow> error option" where
  "Verify b =
     (if \<not> VerifyOrderbook b then None
      else if negative_amount b then Some (Error ''negative amount'')
      else if crossed b then Some CrossedBookError
      else None)"

text \<open>Modelled from the spec: \<^verbatim>\<open>Base.Process\<close>, missing from the sources. A book that
  fails verification is not exposed; a book that passes is stored under its key
  (exchange, pair, asset), overwriting what was there. What else makes it refuse a book
  is the parameter \<open>book_check\<close>.\<close>

definition Process :: "deps \<Rightarrow> orderbook_Base \<Rightarrow> world \<Rightarrow> error option \<times> world" where
  "Process d b w =
     (case book_check d b of
        Some e \<Rightarrow> (Some e, w)
      | None \<Rightarrow>
          (case Verify b of
             Some e \<Rightarrow> (Some e, w)
           | None \<Rightarrow> (None, w\<lparr>books := (books w)((Exchange b, book_Pair b, Asset b) \<mapsto> b)\<rparr>)))"

text \<open>Modelled from the spec: \<^verbatim>\<open>orderbook.Get\<close>, missing from the sources. It returns the
  book stored under the key, or the explicit not-yet-synced indicator when there is
  none.\<close>

definition orderbook_Get ::
  "string \<Rightarrow> currency_Pair \<Rightarrow> Item \<Rightarrow> world \<Rightarrow> orderbook_Base option \<times> error option" where
  "orderbook_Get n p a w =
     (case books w (n, p, a) of
        None \<Rightarrow> (None, Some ErrNotYetSynced)
      | Some b \<Rightarrow> (Some b, None))"

text \<open>Modelled from the spec: \<^verbatim>\<open>ticker.ProcessTicker\<close> is missing from the sources. The
  spec's state caches are keyed by (exchange, pair, asset) and \<^verbatim>\<open>Process()\<close> always
  overwrites; what makes it refuse a ticker is the parameter \<open>ticker_check\<close>.\<close>

definition ProcessTicker :: "deps \<Rightarrow> ticker_Price \<Rightarrow> world \<Rightarrow> error option \<times> world" where
  "ProcessTicker d t w =
     (case ticker_check d t of
        Some e \<Rightarrow> (Some e, w)
      | None \<Rightarrow>
          (None, w\<lparr>tickers := (tickers w)((tp_ExchangeName t, tp_Pair t, tp_AssetType t) \<mapsto> t)\<rparr>))"

subsection \<open>FetchTradablePairs\<close>

definition FetchTradablePairs ::
  "rest_api \<Rightarrow> deps \<Rightarrow> Coinbene \<Rightarrow> Item \<Rightarrow> world \<Rightarrow> (error + string list) \<times> world" where
  "FetchTradablePairs api d c a w =
     (if \<not> SupportsAsset d a then (Inl (unsupported_asset c a), w)
      else if a = Spot then
        (case call ReqGetAllPairs (GetAllPairs api) w of
           (Inl err, w1) \<Rightarrow> (Inl err, w1)
         | (Inr pairs, w1) \<Rightarrow> (Inr (map pd_Symbol pairs), w1))
      else if a = PerpetualSwap then
        (case call ReqGetSwapInstruments (GetSwapInstruments api) w of
           (Inl err, w1) \<Rightarrow> (Inl err, w1)
         | (Inr instruments, w1) \<Rightarrow>
             (case GetPairFormat d PerpetualSwap False of
                Inl err \<Rightarrow> (Inl err, w1)
              | Inr pFmt \<Rightarrow>
                  (Inr (map (\<lambda>i. pair_String
                              (pair_Format d (InstrumentID i) (pf_Delimiter pFmt) (pf_Uppercase pFmt)))
                          instruments), w1)))
      else (Inr [], w))"

subsection \<open>UpdateTickers\<close>

text \<open>The loop over the spot tickers; it returns at the first error.\<close>

fun spot_tickers_loop ::
  "deps \<Rightarrow> Coinbene \<Rightarrow> Item \<Rightarrow> currency_Pair list \<Rightarrow> TickerData list \<Rightarrow> world
     \<Rightarrow> error option \<times> world" where
  "spot_tickers_loop d c a allPairs [] w = (None, w)"
| "spot_tickers_loop d c a allPairs (t # ts) w =
     (case NewPairFromString d (td_Symbol t) of
        Inl err \<Rightarrow> (Some err, w)
      | Inr newP \<Rightarrow>
          if \<not> pairs_Contains d allPairs newP True then spot_tickers_loop d c a allPairs ts w
          else
            (case ProcessTicker d
                    \<lparr>tp_Pair = newP, tp_Last = td_LatestPrice t, tp_High = td_DailyHigh t,
                     tp_Low = td_DailyLow t, tp_Bid = td_BestBid t, tp_Ask = td_BestAsk t,
                     tp_Volume = td_DailyVolume t, tp_LastUpdated = 0,
                     tp_ExchangeName = Name c, tp_AssetType = a\<rparr> w of
               (Some err, w1) \<Rightarrow> (Some err, w1)
             | (None, w1) \<Rightarrow> spot_tickers_loop d c a allPairs ts w1))"

text \<open>The loop over the enabled pairs for the swap tickers.\<close>

fun swap_tickers_loop ::
  "deps \<Rightarrow> Coinbene \<Rightarrow> Item \<Rightarrow> (string \<Rightarrow> SwapTicker option) \<Rightarrow> currency_Pair list \<Rightarrow> world
     \<Rightarrow> error option \<times> world" where
  "swap_tickers_loop d c a tks [] w = (None, w)"
| "swap_tickers_loop d c a tks (p # ps) w =
     (case FormatExchangeCurrency d p a of
        Inl err \<Rightarrow> (Some err, w)
      | Inr fpair \<Rightarrow>
          (case tks (pair_String fpair) of
             None \<Rightarrow> swap_tickers_loop d c a tks ps w
           | Some tick \<Rightarrow>
               (case ProcessTicker d
                       \<lparr>tp_Pair = p, tp_Last = st_LastPrice tick, tp_High = st_High24Hour tick,
                        tp_Low = st_Low24Hour tick, tp_Bid = st_BestBidPrice tick,
                        tp_Ask = st_BestAskPrice tick, tp_Volume = st_Volume24Hour tick,
                        tp_LastUpdated = st_Timestamp tick,
                        tp_ExchangeName = Name c, tp_AssetType = a\<rparr> w of
                  (Some err, w1) \<Rightarrow> (Some err, w1)
                | (None, w1) \<Rightarrow> swap_tickers_loop d c a tks ps w1)))"

definition UpdateTickers ::
  "rest_api \<Rightarrow> deps \<Rightarrow> Coinbene \<Rightarrow> Item \<Rightarrow> world \<Rightarrow> error option \<times> world" where
  "UpdateTickers api d c a w =
     (if \<not> SupportsAsset d a then (Some (unsupported_asset c a), w)
      else
        (case GetEnabledPairs d a of
           Inl err \<Rightarrow> (Some err, w)
         | Inr allPairs \<Rightarrow>
             if a = Spot then
               (case call ReqGetTickers (GetTickers api) w of
                  (Inl err, w1) \<Rightarrow> (Some err, w1)
                | (Inr tks, w1) \<Rightarrow> spot_tickers_loop d c a allPairs tks w1)
             else if a = PerpetualSwap then
               (case call ReqGetSwapTickers (GetSwapTickers api) w of
                  (Inl err, w1) \<Rightarrow> (Some err, w1)
                | (Inr tks, w1) \<Rightarrow> swap_tickers_loop d c a tks allPairs w1)
             else (None, w)))"

subsection \<open>UpdateOrderbook and FetchOrderbook\<close>

text \<open>The two loops that copy the response's levels into the book; the order count is
  copied for perpetual swaps only.\<close>

definition to_Item :: "Item \<Rightarrow> OrderbookItem \<Rightarrow> orderbook_Item" where
  "to_Item assetType x =
     \<lparr>Price = obi_Price x, Amount = obi_Amount x,
      OrderCount = (if assetType = PerpetualSwap then obi_Count x else 0)\<rparr>"

text \<open>A Go result pair (book, err): both components are returned on every path.\<close>

type_synonym book_result = "orderbook_Base option \<times> error option"

definition UpdateOrderbook ::
  "rest_api \<Rightarrow> deps \<Rightarrow> Coinbene \<Rightarrow> currency_Pair \<Rightarrow> Item \<Rightarrow> world \<Rightarrow> book_result \<times> world" where
  "UpdateOrderbook api d c p assetType w =
     (let book = \<lparr>Exchange = Name c, book_Pair = p, Asset = assetType,
                  VerifyOrderbook = CanVerifyOrderbook c, Bids = [], Asks = []\<rparr>
      in if \<not> SupportsAsset d assetType then ((Some book, Some (unsupported_asset c assetType)), w)
         else
           (case FormatExchangeCurrency d p assetType of
              Inl err \<Rightarrow> ((Some book, Some err), w)
            | Inr fpair \<Rightarrow>
                (case (if assetType = Spot
                         then call (ReqGetOrderbook (pair_String fpair) 100)
                                (GetOrderbook api (pair_String fpair) 100) w
                       else if assetType = PerpetualSwap
                         then call (ReqGetSwapOrderbook (pair_String fpair) 100)
                                (GetSwapOrderbook api (pair_String fpair) 100) w
                       else (Inr \<lparr>ob_Asks = [], ob_Bids = []\<rparr>, w)) of
                   (Inl err, w1) \<Rightarrow> ((Some book, Some err), w1)
                 | (Inr tempResp, w1) \<Rightarrow>
                     (let book1 = book\<lparr>Asks := map (to_Item assetType) (ob_Asks tempResp)\<rparr>;
                          book2 = book1\<lparr>Bids := map (to_Item assetType) (ob_Bids tempResp)\<rparr>
                      in case Process d book2 w1 of
                           (Some err, w2) \<Rightarrow> ((Some book2, Some err), w2)
                         | (None, w2) \<Rightarrow> (orderbook_Get (Name c) p assetType w2, w2)))))"

definition FetchOrderbook ::
  "rest_api \<Rightarrow> deps \<Rightarrow> Coinbene \<Rightarrow> currency_Pair \<Rightarrow> Item \<Rightarrow> world \<Rightarrow> book_result \<times> world" where
  "FetchOrderbook api d c p assetType w =
     (if \<not> SupportsAsset d assetType then ((None, Some (unsupported_asset c assetType)), w)
      else
        (case orderbook_Get (Name c) p assetType w of
           (ob, Some err) \<Rightarrow> UpdateOrderbook api d c p assetType w
         | (ob, None) \<Rightarrow> ((ob, None), w)))"

subsection \<open>GetRecentTrades\<close>

text \<open>Modelled from the spec: \<^verbatim>\<open>trade.ByDate\<close> is missing from the sources; the spec
  has trades ordered ascending by timestamp. \<^verbatim>\<open>sort.Sort\<close> leaves the order of trades
  with equal timestamps open; the model keeps their order.\<close>

definition sort_ByDate :: "trade_Data list \<Rightarrow> trade_Data list" where
  "sort_ByDate resp = sort_key tr_Timestamp resp"

definition to_trade :: "Coinbene \<Rightarrow> currency_Pair \<Rightarrow> Item \<Rightarrow> TradeItem \<Rightarrow> trade_Data" where
  "to_trade c p assetType t =
     \<lparr>tr_Exchange = Name c, tr_CurrencyPair = p, tr_AssetType = assetType,
      tr_Side = (if ti_Direction t = ''sell'' then Sell else Buy),
      tr_Price = ti_Price t, tr_Amount = ti_Volume t, tr_Timestamp = ti_TradeTime t\<rparr>"

definition GetRecentTrades ::
  "rest_api \<Rightarrow> deps \<Rightarrow> Coinbene \<Rightarrow> currency_Pair \<Rightarrow> Item \<Rightarrow> world
     \<Rightarrow> (error + trade_Data list) \<times> world" where
  "GetRecentTrades api d c p0 assetType w =
     (case FormatExchangeCurrency d p0 assetType of
        Inl err \<Rightarrow> (Inl err, w)
      | Inr p \<Rightarrow>
          (case call (ReqGetTrades (pair_String p) 100) (GetTrades api (pair_String p) 100) w of
             (Inl err, w1) \<Rightarrow> (Inl err, w1)
           | (Inr tradeData, w1) \<Rightarrow>
               (let resp = map (to_trade c p assetType) tradeData
                in case AddTradesToBuffer d resp of
                     Some err \<Rightarrow> (Inl err, w1)
                   | None \<Rightarrow> (Inr (sort_ByDate resp), w1))))"

subsection \<open>SubmitOrder\<close>

text \<open>The submission \<open>s\<close> is a value: \<^verbatim>\<open>Validate\<close> refuses the nil pointer before any field
  is read.\<close>

definition SubmitOrder ::
  "rest_api \<Rightarrow> deps \<Rightarrow> order_Submit \<Rightarrow> world \<Rightarrow> (order_SubmitResponse \<times> error option) \<times> world" where
  "SubmitOrder api d s w =
     (let resp = \<lparr>IsOrderPlaced = False, sr_OrderID = []\<rparr>
      in case Submit_Validate d s of
           Some err \<Rightarrow> ((resp, Some err), w)
         | None \<Rightarrow>
             if s_Side s \<noteq> Buy \<and> s_Side s \<noteq> Sell
             then ((resp, Some (Error (s_Side s @ '' orderside is not supported by this exchange''))), w)
             else
               (case FormatExchangeCurrency d (s_Pair s) Spot of
                  Inl err \<Rightarrow> ((resp, Some err), w)
                | Inr fpair \<Rightarrow>
                    (case call (ReqPlaceSpotOrder (s_Price s) (s_Amount s) (pair_String fpair)
                                  (s_Side s) (s_Type s) (s_ClientID s) 0)
                            (PlaceSpotOrder api (s_Price s) (s_Amount s) (pair_String fpair)
                                  (s_Side s) (s_Type s) (s_ClientID s) 0) w of
                       (Inl err, w1) \<Rightarrow> ((resp, Some err), w1)
                     | (Inr tempResp, w1) \<Rightarrow>
                         ((resp\<lparr>IsOrderPlaced := True, sr_OrderID := opr_OrderID tempResp\<rparr>, None),
                          w1))))"

subsection \<open>CancelAllOrders\<close>

text \<open>The loop over the open orders: one cancel request per order, its outcome written
  to the map under the order's ID.\<close>

fun cancel_loop ::
  "rest_api \<Rightarrow> OrderInfo list \<Rightarrow> (string \<Rightarrow> string option) \<Rightarrow> world
     \<Rightarrow> (string \<Rightarrow> string option) \<times> world" where
  "cancel_loop api [] tempMap w = (tempMap, w)"
| "cancel_loop api (x # xs) tempMap w =
     (case call (ReqCancelSpotOrder (OrderID x)) (CancelSpotOrder api (OrderID x)) w of
        (Inl err, w1) \<Rightarrow> cancel_loop api xs (tempMap(OrderID x \<mapsto> ''Failed'')) w1
      | (Inr r, w1) \<Rightarrow> cancel_loop api xs (tempMap(OrderID x \<mapsto> ''Success'')) w1)"

definition CancelAllOrders ::
  "rest_api \<Rightarrow> deps \<Rightarrow> order_Cancel \<Rightarrow> world
     \<Rightarrow> (order_CancelAllResponse \<times> error option) \<times> world" where
  "CancelAllOrders api d orderCancellation w =
     (let resp = \<lparr>Status = Map.empty\<rparr>
      in case Cancel_Validate d orderCancellation of
           Some err \<Rightarrow> ((resp, Some err), w)
         | None \<Rightarrow>
             (case FormatExchangeCurrency d (oc_Pair orderCancellation)
                     (oc_AssetType orderCancellation) of
                Inl err \<Rightarrow> ((resp, Some err), w)
              | Inr fpair \<Rightarrow>
                  (case call (ReqFetchOpenSpotOrders (pair_String fpair))
                          (FetchOpenSpotOrders api (pair_String fpair)) w of
                     (Inl err, w1) \<Rightarrow> ((resp, Some err), w1)
                   | (Inr orders, w1) \<Rightarrow>
                       (case cancel_loop api orders Map.empty w1 of
                          (tempMap, w2) \<Rightarrow> ((resp\<lparr>Status := tempMap\<rparr>, None), w2)))))"

subsection \<open>GetHistoricCandles\<close>

text \<open>Modelled from the spec: the interval constants of exchanges/kline that
  \<^verbatim>\<open>FormatExchangeKlineInterval\<close> names are missing from the sources.
  \<^verbatim>\<open>kline.Interval\<close> is a \<^verbatim>\<open>time.Duration\<close>, so each is the number of nanoseconds its
  name says (a month counted as 31 days); no property below depends on the values.\<close>

definition OneMin :: kline_Interval where "OneMin = 60000000000"
definition ThreeMin :: kline_Interval where "ThreeMin = 3 * OneMin"
definition FiveMin :: kline_Interval where "FiveMin = 5 * OneMin"
definition FifteenMin :: kline_Interval where "FifteenMin = 15 * OneMin"
definition ThirtyMin :: kline_Interval where "ThirtyMin = 30 * OneMin"
definition OneHour :: kline_Interval where "OneHour = 60 * OneMin"
definition TwoHour :: kline_Interval where "TwoHour = 2 * OneHour"
definition FourHour :: kline_Interval where "FourHour = 4 * OneHour"
definition SixHour :: kline_Interval where "SixHour = 6 * OneHour"
definition TwelveHour :: kline_Interval where "TwelveHour = 12 * OneHour"
definition OneDay :: kline_Interval where "OneDay = 24 * OneHour"
definition OneWeek :: kline_Interval where "OneWeek = 7 * OneDay"
definition OneMonth :: kline_Interval where "OneMonth = 31 * OneDay"

text \<open>\<^verbatim>\<open>strconv.FormatFloat(x, 'f', 0, 64)\<close> at a whole number of minutes: its decimal
  digits.\<close>

fun digits :: "nat \<Rightarrow> string" where
  "digits n =
     (if n < 10 then [char_of (48 + n)] else digits (n div 10) @ [char_of (48 + n mod 10)])"

definition FormatExchangeKlineInterval :: "kline_Interval \<Rightarrow> string" where
  "FormatExchangeKlineInterval i =
     (if i \<in> set [OneMin, ThreeMin, FiveMin, FifteenMin, ThirtyMin, OneHour, TwoHour, FourHour,
                  SixHour, TwelveHour]
      then digits (nat (i div OneMin))
      else if i = OneDay then ''D''
      else if i = OneWeek then ''W''
      else if i = OneMonth then ''M''
      else [])"

text \<open>The type assertion \<^verbatim>\<open>v.(string)\<close> with its \<^verbatim>\<open>ok\<close> result.\<close>

fun as_string :: "json \<Rightarrow> string option" where
  "as_string (JString s) = Some s"
| "as_string v = None"

text \<open>The body of the loop over the rows: length check first, then for each of the six
  fields the type assertion to a string and its parsing, in the order of the fields.\<close>

definition candle_of_row :: "deps \<Rightarrow> json list \<Rightarrow> error + kline_Candle" where
  "candle_of_row d row =
     (if length row < 6 then Inl (Error ''unexpected candle data length'')
      else case as_string (row ! 0) of
        None \<Rightarrow> Inl (Error ''timestamp conversion failed'')
      | Some tempTime \<Rightarrow>
      (case time_Parse d tempTime of
        Inl err \<Rightarrow> Inl err
      | Inr timestamp \<Rightarrow>
      (case as_string (row ! 1) of
        None \<Rightarrow> Inl (Error ''open conversion failed'')
      | Some opn \<Rightarrow>
      (case ParseFloat d opn of
        Inl err \<Rightarrow> Inl err
      | Inr open_v \<Rightarrow>
      (case as_string (row ! 2) of
        None \<Rightarrow> Inl (Error ''high conversion failed'')
      | Some high \<Rightarrow>
      (case ParseFloat d high of
        Inl err \<Rightarrow> Inl err
      | Inr high_v \<Rightarrow>
      (case as_string (row ! 3) of
        None \<Rightarrow> Inl (Error ''low conversion failed'')
      | Some low \<Rightarrow>
      (case ParseFloat d low of
        Inl err \<Rightarrow> Inl err
      | Inr low_v \<Rightarrow>
      (case as_string (row ! 4) of
        None \<Rightarrow> Inl (Error ''close conversion failed'')
      | Some closeTemp \<Rightarrow>
      (case ParseFloat d closeTemp of
        Inl err \<Rightarrow> Inl err
      | Inr close_v \<Rightarrow>
      (case as_string (row ! 5) of
        None \<Rightarrow> Inl (Error ''vol conversion failed'')
      | Some vol \<Rightarrow>
      (case ParseFloat d vol of
        Inl err \<Rightarrow> Inl err
      | Inr vol_v \<Rightarrow>
          Inr \<lparr>Time = timestamp, Open = open_v, High = high_v, Low = low_v,
               Close = close_v, Volume = vol_v\<rparr>))))))))))))"

text \<open>What makes a row unusable, in the words of the wrapper's contract: fewer than six
  fields, or one of the first six fields that is not a string or that does not parse
  (the first as a time, the others as floats).\<close>

definition field_fails :: "(string \<Rightarrow> error + 'a) \<Rightarrow> json \<Rightarrow> bool" where
  "field_fails parse v = (case as_string v of None \<Rightarrow> True | Some s \<Rightarrow> isl (parse s))"

definition row_malformed :: "deps \<Rightarrow> json list \<Rightarrow> bool" where
  "row_malformed d row =
     (length row < 6 \<or> field_fails (time_Parse d) (row ! 0) \<or> field_fails (ParseFloat d) (row ! 1)
      \<or> field_fails (ParseFloat d) (row ! 2) \<or> field_fails (ParseFloat d) (row ! 3)
      \<or> field_fails (ParseFloat d) (row ! 4) \<or> field_fails (ParseFloat d) (row ! 5))"

fun candles_loop :: "deps \<Rightarrow> json list list \<Rightarrow> kline_Candle list \<Rightarrow> error + kline_Candle list" where
  "candles_loop d [] acc = Inr acc"
| "candles_loop d (row # rows) acc =
     (case candle_of_row d row of
        Inl err \<Rightarrow> Inl err
      | Inr tempCandle \<Rightarrow> candles_loop d rows (acc @ [tempCandle]))"

text \<open>Modelled from the spec: \<^verbatim>\<open>kline.Item.SortCandlesByTimestamp\<close> is missing from the
  sources; it orders the candles by their time, descending when its argument is true
  and ascending otherwise.\<close>

definition SortCandlesByTimestamp :: "bool \<Rightarrow> kline_Item \<Rightarrow> kline_Item" where
  "SortCandlesByTimestamp desc k =
     (if desc then k\<lparr>Candles := rev (sort_key Time (Candles k))\<rparr>
      else k\<lparr>Candles := sort_key Time (Candles k)\<rparr>)"

text \<open>\<^verbatim>\<open>kline.Item{}\<close>.\<close>

definition empty_Item :: kline_Item where
  "empty_Item =
     \<lparr>k_Exchange = [], k_Pair = \<lparr>Base = [], Quote = [], Delimiter = []\<rparr>, k_Asset = [],
      k_Interval = 0, Candles = []\<rparr>"

definition GetHistoricCandles ::
  "rest_api \<Rightarrow> deps \<Rightarrow> Coinbene \<Rightarrow> currency_Pair \<Rightarrow> Item \<Rightarrow> time \<Rightarrow> time \<Rightarrow> kline_Interval \<Rightarrow> world
     \<Rightarrow> (kline_Item \<times> error option) \<times> world" where
  "GetHistoricCandles api d c pair a start end' interval w =
     (case ValidateKline d pair a interval of
        Some err \<Rightarrow> ((empty_Item, Some err), w)
      | None \<Rightarrow>
          (case FormatExchangeCurrency d pair PerpetualSwap of
             Inl err \<Rightarrow> ((empty_Item, Some err), w)
           | Inr formattedPair \<Rightarrow>
               (case (if a = PerpetualSwap
                        then call (ReqGetSwapKlines (pair_String formattedPair) start end'
                                     (FormatExchangeKlineInterval interval))
                               (GetSwapKlines api (pair_String formattedPair) start end'
                                     (FormatExchangeKlineInterval interval)) w
                      else call (ReqGetKlines (pair_String formattedPair) start end'
                                     (FormatExchangeKlineInterval interval))
                               (GetKlines api (pair_String formattedPair) start end'
                                     (FormatExchangeKlineInterval interval)) w) of
                  (Inl err, w1) \<Rightarrow> ((empty_Item, Some err), w1)
                | (Inr candles, w1) \<Rightarrow>
                    (let ret = \<lparr>k_Exchange = Name c, k_Pair = pair, k_Asset = a,
                                k_Interval = interval, Candles = []\<rparr>
                     in case candles_loop d (Data candles) (Candles ret) of
                          Inl err \<Rightarrow> ((empty_Item, Some err), w1)
                        | Inr cs \<Rightarrow>
                            ((SortCandlesByTimestamp False (ret\<lparr>Candles := cs\<rparr>), None), w1)))))"

subsection \<open>SetDefaults and Setup\<close>

text \<open>\<^verbatim>\<open>StoreAssetPairFormat\<close> writes the pair store of an asset; its error is only logged.\<close>

definition StoreAssetPairFormat :: "Item \<Rightarrow> currency_PairStore \<Rightarrow> Coinbene \<Rightarrow> Coinbene" where
  "StoreAssetPairFormat a ps c = c\<lparr>AssetPairFormats := (AssetPairFormats c)(a \<mapsto> ps)\<rparr>"

definition SetDefaults :: "deps \<Rightarrow> Coinbene \<Rightarrow> Coinbene" where
  "SetDefaults d c =
     (let c1 = c\<lparr>Name := ''Coinbene'', Enabled := True, Verbose := True,
                 RequiresKey := True, RequiresSecret := True\<rparr>;
          c2 = StoreAssetPairFormat Spot
                 \<lparr>RequestFormat = \<lparr>pf_Uppercase = True, pf_Delimiter = ''/''\<rparr>,
                  ConfigFormat = \<lparr>pf_Uppercase = True, pf_Delimiter = ''/''\<rparr>\<rparr> c1;
          c3 = StoreAssetPairFormat PerpetualSwap
                 \<lparr>RequestFormat = \<lparr>pf_Uppercase = True, pf_Delimiter = ''-''\<rparr>,
                  ConfigFormat = \<lparr>pf_Uppercase = True, pf_Delimiter = ''/''\<rparr>\<rparr> c2
      in c3\<lparr>WebsocketResponseMaxLimit := DefaultWebsocketResponseMaxLimit d,
            WebsocketResponseCheckTimeout := DefaultWebsocketResponseCheckTimeout d,
            WebsocketOrderbookBufferLimit := DefaultWebsocketOrderbookBufferLimit d\<rparr>)"

text \<open>\<^verbatim>\<open>Setup\<close> returns the exchange as it leaves it, the calls it made on the websocket
  with their arguments, and its error.\<close>

definition Setup ::
  "deps \<Rightarrow> Coinbene \<Rightarrow> config_Exchange \<Rightarrow> (Coinbene \<times> ws_call list) \<times> error option" where
  "Setup d c exch =
     (if \<not> cfg_Enabled exch then ((c\<lparr>Enabled := False\<rparr>, []), None)
      else
        (case SetupDefaults d c exch of
           (c1, Some err) \<Rightarrow> ((c1, []), Some err)
         | (c1, None) \<Rightarrow>
             (case GetURL d c1 WebsocketSpot of
                Inl err \<Rightarrow> ((c1, []), Some err)
              | Inr wsRunningURL \<Rightarrow>
                  (let s = \<lparr>ExchangeConfig = exch, DefaultURL = wsContractURL d,
                            RunningURL = wsRunningURL, SortBuffer = True\<rparr>
                   in case Websocket_Setup d s of
                        Some err \<Rightarrow> ((c1, [WsSetup s]), Some err)
                      | None \<Rightarrow>
                          (let cs = \<lparr>ResponseCheckTimeout = cfg_WebsocketResponseCheckTimeout exch,
                                     ResponseMaxLimit = cfg_WebsocketResponseMaxLimit exch\<rparr>
                           in ((c1, [WsSetup s, WsSetupNewConnection cs]),
                               Websocket_SetupNewConnection d cs))))))"

section \<open>The Orderbook Synchronizer\<close>

text \<open>The synchronizer that \<^verbatim>\<open>Setup\<close> configures (the websocket's order book buffer, in
  exchanges/stream) is missing from the sources. Every definition of this section is
  modelled from the spec, sections 3 and 4.4, for one book key. Two things of the spec
  are left out: the book's last-updated timestamp, which is read from the clock, and the
  resync of a gap that stays open for a bounded time.\<close>

subsection \<open>Data\<close>

text \<open>Modelled from the spec: the side of an update, missing from the sources.\<close>

datatype side = Bid | Ask

text \<open>Modelled from the spec: PriceLevel = (price > 0, amount \<ge> 0, optional orderCount),
  missing from the sources.\<close>

record PriceLevel =
  pl_price :: float64
  pl_amount :: float64
  pl_orderCount :: "int option"

text \<open>Modelled from the spec: PendingUpdate = (sequence, side, PriceLevel), missing from
  the sources.\<close>

record PendingUpdate =
  pu_sequence :: nat
  pu_side :: side
  pu_level :: PriceLevel

text \<open>Modelled from the spec: OrderBook, missing from the sources: the bid set sorted
  descending by price, the ask set ascending, a sequence number and a verification
  flag.\<close>

record OrderBook =
  bids :: "PriceLevel list"
  asks :: "PriceLevel list"
  sequence :: nat
  verify :: bool

text \<open>Modelled from the spec: the per-key states, missing from the sources.\<close>

datatype sync_phase = Uninitialized | AwaitingSnapshot | Synced | Resyncing

text \<open>Modelled from the spec: the state of one key, missing from the sources: its
  phase, its book and its queue of pending updates, in arrival order.\<close>

record sync =
  phase :: sync_phase
  book :: OrderBook
  buffer :: "PendingUpdate list"

text \<open>Modelled from the spec: what drives the state machine, missing from the sources:
  the first subscription, a REST snapshot, an update of the feed, the feed's explicit
  invalidate message, and the request of a fresh snapshot that leaves Resyncing.\<close>

datatype event =
    Subscribe
  | Snapshot OrderBook
  | Update PendingUpdate
  | Invalidate
  | SnapshotRequested

subsection \<open>Applying one update\<close>

text \<open>Modelled from the spec: upserting a level of the ask set, missing from the sources.
  The set stays ascending by price and a level at the same price is replaced.\<close>

fun upsert_asc :: "PriceLevel \<Rightarrow> PriceLevel list \<Rightarrow> PriceLevel list" where
  "upsert_asc l [] = [l]"
| "upsert_asc l (x # xs) =
     (if pl_price l < pl_price x then l # x # xs
      else if pl_price l = pl_price x then l # xs
      else x # upsert_asc l xs)"

text \<open>Modelled from the spec: upserting a level of the bid set, missing from the sources.
  The set stays descending by price.\<close>

fun upsert_desc :: "PriceLevel \<Rightarrow> PriceLevel list \<Rightarrow> PriceLevel list" where
  "upsert_desc l [] = [l]"
| "upsert_desc l (x # xs) =
     (if pl_price x < pl_price l then l # x # xs
      else if pl_price l = pl_price x then l # xs
      else x # upsert_desc l xs)"

text \<open>Modelled from the spec: deleting the level at a price, missing from the sources.\<close>

definition delete_level :: "float64 \<Rightarrow> PriceLevel list \<Rightarrow> PriceLevel list" where
  "delete_level p ls = filter (\<lambda>x. pl_price x \<noteq> p) ls"

text \<open>Modelled from the spec: the apply of one update, missing from the sources: upsert
  the level, or delete it if the amount becomes 0; the book takes the update's
  sequence.\<close>

definition apply_update :: "PendingUpdate \<Rightarrow> OrderBook \<Rightarrow> OrderBook" where
  "apply_update u b =
     (let l = pu_level u
      in case pu_side u of
           Bid \<Rightarrow>
             b\<lparr>bids := (if pl_amount l = 0 then delete_level (pl_price l) (bids b)
                        else upsert_desc l (bids b)),
               sequence := pu_sequence u\<rparr>
         | Ask \<Rightarrow>
             b\<lparr>asks := (if pl_amount l = 0 then delete_level (pl_price l) (asks b)
                        else upsert_asc l (asks b)),
               sequence := pu_sequence u\<rparr>)"

text \<open>Modelled from the spec: the crossed book, missing from the sources: best bid \<ge> best
  ask, the best bid and the best ask being the first levels of the two sorted sets.\<close>

definition book_crossed :: "OrderBook \<Rightarrow> bool" where
  "book_crossed b =
     (case bids b of
        [] \<Rightarrow> False
      | x # xs \<Rightarrow> (case asks b of [] \<Rightarrow> False | y # ys \<Rightarrow> pl_price y \<le> pl_price x))"

text \<open>Modelled from the spec: verification, missing from the sources. When enabled it
  asserts non-negative amounts and non-crossed best bid/ask.\<close>

definition verified :: "OrderBook \<Rightarrow> bool" where
  "verified b =
     (if verify b
      then list_all (\<lambda>l. 0 \<le> pl_amount l) (bids b @ asks b) \<and> \<not> book_crossed b
      else True)"

subsection \<open>The state machine\<close>

text \<open>Modelled from the spec: one update in the state Synced, with buffer limit \<open>N\<close>,
  missing from the sources. An update with sequence \<le> current is discarded as stale; an
  update with sequence = current + 1 applies directly, and an apply that fails
  verification forces Resyncing rather than being exposed; an update with sequence
  > current + 1 is buffered, and buffering into a full buffer forces Resyncing.\<close>

definition synced_update :: "nat \<Rightarrow> PendingUpdate \<Rightarrow> sync \<Rightarrow> sync" where
  "synced_update N u st =
     (if pu_sequence u \<le> sequence (book st) then st
      else if pu_sequence u = sequence (book st) + 1 then
        (let b = apply_update u (book st)
         in if verified b then st\<lparr>book := b\<rparr> else st\<lparr>phase := Resyncing\<rparr>)
      else if N \<le> length (buffer st) then st\<lparr>phase := Resyncing\<rparr>
      else st\<lparr>buffer := buffer st @ [u]\<rparr>)"

text \<open>Modelled from the spec: the replay of updates, missing from the sources: one after
  the other, for as long as the key stays Synced.\<close>

fun replay :: "nat \<Rightarrow> PendingUpdate list \<Rightarrow> sync \<Rightarrow> sync" where
  "replay N [] st = st"
| "replay N (u # us) st =
     (if phase st = Synced then replay N us (synced_update N u st) else st)"

text \<open>Modelled from the spec: the replay of the buffer, missing from the sources. The
  buffered updates are sorted ascending by sequence (a stable sort: updates that share
  a sequence stay in arrival order), entries at or below the current sequence are
  discarded and the remainder is replayed. The spec has it when the snapshot arrives;
  it is also what fills a gap after a direct apply (scenario B).\<close>

definition fill :: "nat \<Rightarrow> sync \<Rightarrow> sync" where
  "fill N st = replay N (sort_key pu_sequence (buffer st)) (st\<lparr>buffer := []\<rparr>)"

text \<open>Modelled from the spec: the book of a key that has none, missing from the
  sources.\<close>

definition no_book :: OrderBook where
  "no_book = \<lparr>bids = [], asks = [], sequence = 0, verify = False\<rparr>"

text \<open>Modelled from the spec: the transitions, missing from the sources.
  Uninitialized goes to AwaitingSnapshot on the first subscription. AwaitingSnapshot
  goes to Synced when a snapshot arrives: the book is replaced and the buffer replayed;
  updates that arrive while waiting are buffered. In Synced an update follows
  \<open>synced_update\<close>, and a direct apply is followed by the replay of the buffer; the
  invalidate message forces Resyncing. Resyncing goes to AwaitingSnapshot with the book
  and the buffer discarded. An event that has no transition in a state leaves it as it
  is.\<close>

definition deliver :: "nat \<Rightarrow> event \<Rightarrow> sync \<Rightarrow> sync" where
  "deliver N ev st =
     (case ev of
        Subscribe \<Rightarrow> (if phase st = Uninitialized then st\<lparr>phase := AwaitingSnapshot\<rparr> else st)
      | Snapshot b \<Rightarrow>
          (if phase st = AwaitingSnapshot then fill N (st\<lparr>phase := Synced, book := b\<rparr>) else st)
      | Update u \<Rightarrow>
          (if phase st = Synced then
             (if pu_sequence u = sequence (book st) + 1 then
                (let st1 = synced_update N u st
                 in if phase st1 = Synced then fill N st1 else st1)
              else synced_update N u st)
           else if phase st = AwaitingSnapshot then st\<lparr>buffer := buffer st @ [u]\<rparr>
           else st)
      | Invalidate \<Rightarrow> (if phase st = Synced then st\<lparr>phase := Resyncing\<rparr> else st)
      | SnapshotRequested \<Rightarrow>
          (if phase st = Resyncing
           then \<lparr>phase = AwaitingSnapshot, book = no_book, buffer = []\<rparr>
           else st))"

text \<open>Modelled from the spec: the processing lane of a key, missing from the sources:
  its events are processed in arrival order.\<close>

definition deliver_all :: "nat \<Rightarrow> event list \<Rightarrow> sync \<Rightarrow> sync" where
  "deliver_all N evs st = fold (deliver N) evs st"

text \<open>Modelled from the spec: \<^verbatim>\<open>GetBook\<close>, missing from the sources: the book of a key
  that is Synced, and the explicit not-yet-synced indicator otherwise.\<close>

definition GetBook :: "sync \<Rightarrow> OrderBook option" where
  "GetBook st = (if phase st = Synced then Some (book st) else None)"

subsection \<open>States up to the order of the buffer\<close>


section \<open>Concrete inputs\<close>

text \<open>A small exchange on which the theorems below are instantiated: the pair BTC/USDT,
  both asset types supported, an empty request log and empty stores.\<close>

definition ex_pair :: currency_Pair where
  "ex_pair = \<lparr>Base = ''BTC'', Quote = ''USDT'', Delimiter = ''/''\<rparr>"

definition ex_c :: Coinbene where
  "ex_c = \<lparr>Name = ''Coinbene'', Enabled = True, Verbose = True, RequiresKey = True,
           RequiresSecret = True, AssetPairFormats = Map.empty, CanVerifyOrderbook = True,
           WebsocketResponseMaxLimit = 0, WebsocketResponseCheckTimeout = 0,
           WebsocketOrderbookBufferLimit = 0\<rparr>"

definition ex_w :: world where
  "ex_w = \<lparr>requests = [], books = Map.empty, tickers = Map.empty\<rparr>"

definition ex_cfg :: config_Exchange where
  "ex_cfg = \<lparr>cfg_Enabled = True, cfg_WebsocketResponseCheckTimeout = 30000000,
             cfg_WebsocketResponseMaxLimit = 7000000000\<rparr>"

definition ex_deps :: deps where
  "ex_deps =
     \<lparr>SupportsAsset = (\<lambda>a. a = Spot \<or> a = PerpetualSwap),
      FormatExchangeCurrency =
        (\<lambda>p a. if a = Spot then Inr (p\<lparr>Delimiter := ''/''\<rparr>)
               else if a = PerpetualSwap then Inr (p\<lparr>Delimiter := ''-''\<rparr>)
               else Inl (Error ''asset type not supported'')),
      GetEnabledPairs = (\<lambda>a. Inr [ex_pair]),
      GetPairFormat = (\<lambda>a r. Inr \<lparr>pf_Uppercase = True, pf_Delimiter = ''/''\<rparr>),
      pair_Format = (\<lambda>p dl u. p\<lparr>Delimiter := dl\<rparr>),
      NewPairFromString =
        (\<lambda>s. if s = ''BTC/USDT'' then Inr ex_pair else Inl (Error ''no delimiter'')),
      pairs_Contains = (\<lambda>ps p exact. p \<in> set ps),
      ticker_check = (\<lambda>t. None),
      book_check = (\<lambda>b. None),
      AddTradesToBuffer = (\<lambda>ts. None),
      Submit_Validate =
        (\<lambda>s. if s_Amount s \<le> 0 then Some (Error ''submit amount is not positive'') else None),
      Cancel_Validate = (\<lambda>x. None),
      ValidateKline = (\<lambda>p a i. None),
      time_Parse =
        (\<lambda>s. if s = ''2021-06-01T00:00:00Z'' then Inr 1622505600000000000
              else if s = ''2021-06-01T00:01:00Z'' then Inr 1622505660000000000
              else Inl (Error ''parsing time'')),
      ParseFloat =
        (\<lambda>s. if s = ''1'' then Inr 1 else if s = ''2'' then Inr 2
              else Inl (Error ''invalid syntax'')),
      DefaultWebsocketResponseMaxLimit = 7000000000,
      DefaultWebsocketResponseCheckTimeout = 30000000,
      DefaultWebsocketOrderbookBufferLimit = 5,
      wsContractURL = ''wss://ws.coinbene.com/stream/ws'',
      SetupDefaults = (\<lambda>c e. (c\<lparr>Enabled := True\<rparr>, None)),
      GetURL = (\<lambda>c u. Inr ''wss://ws.coinbene.com/stream/ws''),
      Websocket_Setup = (\<lambda>s. None),
      Websocket_SetupNewConnection = (\<lambda>s. None)\<rparr>"

text \<open>An exchange that answers, and one whose every endpoint fails.\<close>

definition ex_book :: Orderbook where
  "ex_book =
     \<lparr>ob_Asks = [\<lparr>obi_Price = 101, obi_Amount = 2, obi_Count = 1\<rparr>],
      ob_Bids = [\<lparr>obi_Price = 100, obi_Amount = 1, obi_Count = 3\<rparr>]\<rparr>"

definition ex_api :: rest_api where
  "ex_api =
     \<lparr>GetAllPairs = (\<lambda>n. Inr [\<lparr>pd_Symbol = ''BTC/USDT''\<rparr>]),
      GetSwapInstruments = (\<lambda>n. Inr [\<lparr>InstrumentID = ex_pair\<rparr>]),
      GetTickers = (\<lambda>n. Inr []),
      GetSwapTickers = (\<lambda>n. Inr Map.empty),
      GetOrderbook = (\<lambda>s dp n. Inr ex_book),
      GetSwapOrderbook = (\<lambda>s dp n. Inr ex_book),
      GetTrades =
        (\<lambda>s l n. Inr [\<lparr>ti_Direction = ''sell'', ti_Price = 100, ti_Volume = 1, ti_TradeTime = 20\<rparr>,
                       \<lparr>ti_Direction = ''buy'', ti_Price = 101, ti_Volume = 2, ti_TradeTime = 10\<rparr>]),
      PlaceSpotOrder = (\<lambda>pr am sy si ty cl x n. Inr \<lparr>opr_OrderID = ''1001''\<rparr>),
      FetchOpenSpotOrders = (\<lambda>s n. Inr [\<lparr>OrderID = ''7''\<rparr>, \<lparr>OrderID = ''8''\<rparr>]),
      CancelSpotOrder = (\<lambda>i n. if i = ''7'' then Inr ''7'' else Inl (Error ''order not found'')),
      GetKlines =
        (\<lambda>s st en i n.
           Inr \<lparr>Data = [[JString ''2021-06-01T00:01:00Z'', JString ''1'', JString ''2'', JString ''1'',
                          JString ''2'', JString ''1''],
                         [JString ''2021-06-01T00:00:00Z'', JString ''1'', JString ''1'', JString ''1'',
                          JString ''1'', JString ''2'']]\<rparr>),
      GetSwapKlines = (\<lambda>s st en i n. Inr \<lparr>Data = [[JNumber 1]]\<rparr>)\<rparr>"

definition ex_down :: error where
  "ex_down = Error ''connection refused''"

definition ex_api_down :: rest_api where
  "ex_api_down =
     \<lparr>GetAllPairs = (\<lambda>n. Inl ex_down),
      GetSwapInstruments = (\<lambda>n. Inl ex_down),
      GetTickers = (\<lambda>n. Inl ex_down),
      GetSwapTickers = (\<lambda>n. Inl ex_down),
      GetOrderbook = (\<lambda>s dp n. Inl ex_down),
      GetSwapOrderbook = (\<lambda>s dp n. Inl ex_down),
      GetTrades = (\<lambda>s l n. Inl ex_down),
      PlaceSpotOrder = (\<lambda>pr am sy si ty cl x n. Inl ex_down),
      FetchOpenSpotOrders = (\<lambda>s n. Inl ex_down),
      CancelSpotOrder = (\<lambda>i n. Inl ex_down),
      GetKlines = (\<lambda>s st en i n. Inl ex_down),
      GetSwapKlines = (\<lambda>s st en i n. Inl ex_down)\<rparr>"

definition ex_submit :: order_Submit where
  "ex_submit =
     \<lparr>s_Pair = ex_pair, s_Side = Buy, s_Type = ''LIMIT'', s_Price = 100, s_Amount = 1,
      s_ClientID = ''c1''\<rparr>"

definition ex_cancel :: order_Cancel where
  "ex_cancel = \<lparr>oc_Pair = ex_pair, oc_AssetType = Spot\<rparr>"

text \<open>A synced key at sequence 100 with one bid and one ask, and three updates 101, 102
  and 103.\<close>

definition ex_level :: "rat \<Rightarrow> rat \<Rightarrow> PriceLevel" where
  "ex_level p a = \<lparr>pl_price = p, pl_amount = a, pl_orderCount = None\<rparr>"

definition ex_upd :: "nat \<Rightarrow> side \<Rightarrow> rat \<Rightarrow> rat \<Rightarrow> PendingUpdate" where
  "ex_upd n s p a = \<lparr>pu_sequence = n, pu_side = s, pu_level = ex_level p a\<rparr>"

definition ex_sync :: sync where
  "ex_sync =
     \<lparr>phase = Synced,
      book = \<lparr>bids = [ex_level 10000 1], asks = [ex_level 10010 1], sequence = 100,
              verify = True\<rparr>,
      buffer = []\<rparr>"

definition ex_updates :: "PendingUpdate list" where
  "ex_updates = [ex_upd 103 Ask 10010 0, ex_upd 101 Bid 10000 0, ex_upd 102 Bid 10005 2]"

section \<open>Properties of the wrapper\<close>

lemmas ex_defs = ex_pair_def ex_c_def ex_w_def ex_cfg_def ex_deps_def ex_book_def ex_api_def
  ex_down_def ex_api_down_def ex_submit_def ex_cancel_def Spot_def PerpetualSwap_def Buy_def Sell_def

lemmas sync_defs = deliver_all_def deliver_def synced_update_def fill_def apply_update_def
  verified_def book_crossed_def delete_level_def GetBook_def Let_def
  ex_sync_def ex_updates_def ex_upd_def ex_level_def

subsection \<open>Published books are not crossed\<close>













subsection \<open>REST failures\<close>

text \<open>C3. When the REST call of \<^verbatim>\<open>UpdateOrderbook\<close> (spot or swap), of \<^verbatim>\<open>UpdateTickers\<close>
  (spot or swap) or of \<^verbatim>\<open>GetRecentTrades\<close> fails with an error \<open>e\<close>, the operation returns
  that same \<open>e\<close>, and the request log has grown by exactly that one request: nothing is
  retried.\<close>

theorem rest_failure_propagates:
  "(SupportsAsset d Spot \<and> FormatExchangeCurrency d p Spot = Inr fpair
      \<and> GetOrderbook api (pair_String fpair) 100 (length (requests w)) = Inl e
    \<longrightarrow> snd (fst (UpdateOrderbook api d c p Spot w)) = Some e
        \<and> requests (snd (UpdateOrderbook api d c p Spot w)) =
             requests w @ [ReqGetOrderbook (pair_String fpair) 100])
 \<and> (SupportsAsset d PerpetualSwap \<and> FormatExchangeCurrency d p PerpetualSwap = Inr fpair
      \<and> GetSwapOrderbook api (pair_String fpair) 100 (length (requests w)) = Inl e
    \<longrightarrow> snd (fst (UpdateOrderbook api d c p PerpetualSwap w)) = Some e
        \<and> requests (snd (UpdateOrderbook api d c p PerpetualSwap w)) =
             requests w @ [ReqGetSwapOrderbook (pair_String fpair) 100])
 \<and> (SupportsAsset d Spot \<and> GetEnabledPairs d Spot = Inr allPairs
      \<and> GetTickers api (length (requests w)) = Inl e
    \<longrightarrow> fst (UpdateTickers api d c Spot w) = Some e
        \<and> requests (snd (UpdateTickers api d c Spot w)) = requests w @ [ReqGetTickers])
 \<and> (SupportsAsset d PerpetualSwap \<and> GetEnabledPairs d PerpetualSwap = Inr allPairs
      \<and> GetSwapTickers api (length (requests w)) = Inl e
    \<longrightarrow> fst (UpdateTickers api d c PerpetualSwap w) = Some e
        \<and> requests (snd (UpdateTickers api d c PerpetualSwap w)) =
             requests w @ [ReqGetSwapTickers])
 \<and> (FormatExchangeCurrency d p a = Inr fpair
      \<and> GetTrades api (pair_String fpair) 100 (length (requests w)) = Inl e
    \<longrightarrow> fst (GetRecentTrades api d c p a w) = Inl e
        \<and> requests (snd (GetRecentTrades api d c p a w)) =
             requests w @ [ReqGetTrades (pair_String fpair) 100])"
  by (simp add: UpdateOrderbook_def UpdateTickers_def GetRecentTrades_def call_def Let_def
      Spot_def PerpetualSwap_def)

text \<open>On the exchange whose endpoints all refuse the connection.\<close>

theorem rest_failure_propagates_witness:
  "snd (fst (UpdateOrderbook ex_api_down ex_deps ex_c ex_pair Spot ex_w)) = Some ex_down
   \<and> requests (snd (UpdateOrderbook ex_api_down ex_deps ex_c ex_pair Spot ex_w)) =
        [ReqGetOrderbook ''BTC/USDT'' 100]
   \<and> snd (fst (UpdateOrderbook ex_api_down ex_deps ex_c ex_pair PerpetualSwap ex_w)) = Some ex_down
   \<and> requests (snd (UpdateOrderbook ex_api_down ex_deps ex_c ex_pair PerpetualSwap ex_w)) =
        [ReqGetSwapOrderbook ''BTC-USDT'' 100]
   \<and> fst (UpdateTickers ex_api_down ex_deps ex_c Spot ex_w) = Some ex_down
   \<and> requests (snd (UpdateTickers ex_api_down ex_deps ex_c Spot ex_w)) = [ReqGetTickers]
   \<and> fst (UpdateTickers ex_api_down ex_deps ex_c PerpetualSwap ex_w) = Some ex_down
   \<and> requests (snd (UpdateTickers ex_api_down ex_deps ex_c PerpetualSwap ex_w)) =
        [ReqGetSwapTickers]
   \<and> fst (GetRecentTrades ex_api_down ex_deps ex_c ex_pair Spot ex_w) = Inl ex_down
   \<and> requests (snd (GetRecentTrades ex_api_down ex_deps ex_c ex_pair Spot ex_w)) =
        [ReqGetTrades ''BTC/USDT'' 100]"
proof -
  have s: "SupportsAsset ex_deps Spot" "SupportsAsset ex_deps PerpetualSwap"
    by (simp_all add: ex_deps_def)
  have f: "FormatExchangeCurrency ex_deps ex_pair Spot = Inr ex_pair"
    "FormatExchangeCurrency ex_deps ex_pair PerpetualSwap = Inr (ex_pair\<lparr>Delimiter := ''-''\<rparr>)"
    by (simp_all add: ex_deps_def ex_pair_def Spot_def PerpetualSwap_def)
  have g: "GetEnabledPairs ex_deps Spot = Inr [ex_pair]"
    "GetEnabledPairs ex_deps PerpetualSwap = Inr [ex_pair]"
    by (simp_all add: ex_deps_def)
  have r: "\<And>s. GetOrderbook ex_api_down s 100 (length (requests ex_w)) = Inl ex_down"
    "\<And>s. GetSwapOrderbook ex_api_down s 100 (length (requests ex_w)) = Inl ex_down"
    "GetTickers ex_api_down (length (requests ex_w)) = Inl ex_down"
    "GetSwapTickers ex_api_down (length (requests ex_w)) = Inl ex_down"
    "\<And>s. GetTrades ex_api_down s 100 (length (requests ex_w)) = Inl ex_down"
    by (simp_all add: ex_api_down_def)
  have n: "pair_String ex_pair = ''BTC/USDT''"
    "pair_String (ex_pair\<lparr>Delimiter := ''-''\<rparr>) = ''BTC-USDT''" "requests ex_w = []"
    by (simp_all add: pair_String_def ex_pair_def ex_w_def)
  have 1: "snd (fst (UpdateOrderbook ex_api_down ex_deps ex_c ex_pair Spot ex_w)) = Some ex_down
   \<and> requests (snd (UpdateOrderbook ex_api_down ex_deps ex_c ex_pair Spot ex_w)) =
        requests ex_w @ [ReqGetOrderbook (pair_String ex_pair) 100]"
    using s f r rest_failure_propagates [where d = ex_deps and p = ex_pair and fpair = ex_pair
        and api = ex_api_down and w = ex_w and e = ex_down and c = ex_c]
    by blast
  have 2: "snd (fst (UpdateOrderbook ex_api_down ex_deps ex_c ex_pair PerpetualSwap ex_w)) = Some ex_down
   \<and> requests (snd (UpdateOrderbook ex_api_down ex_deps ex_c ex_pair PerpetualSwap ex_w)) =
        requests ex_w @ [ReqGetSwapOrderbook (pair_String (ex_pair\<lparr>Delimiter := ''-''\<rparr>)) 100]"
    using s f r rest_failure_propagates [where d = ex_deps and p = ex_pair
        and fpair = "ex_pair\<lparr>Delimiter := ''-''\<rparr>"
        and api = ex_api_down and w = ex_w and e = ex_down and c = ex_c]
    by blast
  have 3: "fst (UpdateTickers ex_api_down ex_deps ex_c Spot ex_w) = Some ex_down
   \<and> requests (snd (UpdateTickers ex_api_down ex_deps ex_c Spot ex_w)) = requests ex_w @ [ReqGetTickers]
   \<and> fst (UpdateTickers ex_api_down ex_deps ex_c PerpetualSwap ex_w) = Some ex_down
   \<and> requests (snd (UpdateTickers ex_api_down ex_deps ex_c PerpetualSwap ex_w)) =
        requests ex_w @ [ReqGetSwapTickers]"
    using s g r rest_failure_propagates [where d = ex_deps and allPairs = "[ex_pair]"
        and api = ex_api_down and w = ex_w and e = ex_down and c = ex_c]
    by blast
  have 4: "fst (GetRecentTrades ex_api_down ex_deps ex_c ex_pair Spot ex_w) = Inl ex_down
   \<and> requests (snd (GetRecentTrades ex_api_down ex_deps ex_c ex_pair Spot ex_w)) =
        requests ex_w @ [ReqGetTrades (pair_String ex_pair) 100]"
    using f r rest_failure_propagates [where d = ex_deps and p = ex_pair and fpair = ex_pair
        and a = Spot and api = ex_api_down and w = ex_w and e = ex_down and c = ex_c]
    by blast
  show ?thesis
    using 1 2 3 4 unfolding n by simp
qed

subsection \<open>Unsupported asset types\<close>

text \<open>C4. For an asset type the exchange does not support, \<^verbatim>\<open>FetchTradablePairs\<close>,
  \<^verbatim>\<open>UpdateTickers\<close>, \<^verbatim>\<open>FetchOrderbook\<close> and \<^verbatim>\<open>UpdateOrderbook\<close> each return the error
  "<name> does not support asset type <asset>" and leave the state, hence the request
  log, as it was.\<close>

theorem unsupported_asset_rejected:
  assumes "\<not> SupportsAsset d a"
  shows "FetchTradablePairs api d c a w =
           (Inl (Error (Name c @ '' does not support asset type '' @ a)), w)
       \<and> UpdateTickers api d c a w =
           (Some (Error (Name c @ '' does not support asset type '' @ a)), w)
       \<and> fst (FetchOrderbook api d c p a w) =
           (None, Some (Error (Name c @ '' does not support asset type '' @ a)))
       \<and> snd (FetchOrderbook api d c p a w) = w
       \<and> snd (fst (UpdateOrderbook api d c p a w)) =
           Some (Error (Name c @ '' does not support asset type '' @ a))
       \<and> snd (UpdateOrderbook api d c p a w) = w"
  using assms
  by (simp add: FetchTradablePairs_def UpdateTickers_def FetchOrderbook_def UpdateOrderbook_def
      unsupported_asset_def Let_def)

text \<open>The asset type "futures" on the example exchange.\<close>

theorem unsupported_asset_rejected_witness:
  "\<not> SupportsAsset ex_deps ''futures''
   \<and> FetchTradablePairs ex_api ex_deps ex_c ''futures'' ex_w =
       (Inl (Error ''Coinbene does not support asset type futures''), ex_w)
   \<and> UpdateTickers ex_api ex_deps ex_c ''futures'' ex_w =
       (Some (Error ''Coinbene does not support asset type futures''), ex_w)
   \<and> fst (FetchOrderbook ex_api ex_deps ex_c ex_pair ''futures'' ex_w) =
       (None, Some (Error ''Coinbene does not support asset type futures''))
   \<and> requests (snd (FetchOrderbook ex_api ex_deps ex_c ex_pair ''futures'' ex_w)) = []
   \<and> snd (fst (UpdateOrderbook ex_api ex_deps ex_c ex_pair ''futures'' ex_w)) =
       Some (Error ''Coinbene does not support asset type futures'')
   \<and> requests (snd (UpdateOrderbook ex_api ex_deps ex_c ex_pair ''futures'' ex_w)) = []"
proof -
  have h: "\<not> SupportsAsset ex_deps ''futures''"
    by (simp add: ex_deps_def Spot_def PerpetualSwap_def)
  have n: "Name ex_c = ''Coinbene''" "requests ex_w = []"
    by (simp_all add: ex_c_def ex_w_def)
  show ?thesis
    using h n unsupported_asset_rejected [OF h, of ex_api ex_c ex_w ex_pair]
    by simp
qed

subsection \<open>The depth of the snapshot\<close>

text \<open>C5, as stated, fails: \<^verbatim>\<open>UpdateOrderbook\<close> takes no depth and reads none from the
  exchange's settings. Whatever the settings, the snapshot is requested at depth 100.\<close>

theorem snapshot_depth_fixed_counterexample:
  "requests (snd (UpdateOrderbook ex_api ex_deps (ex_c\<lparr>WebsocketOrderbookBufferLimit := 20\<rparr>)
                    ex_pair Spot ex_w)) = [ReqGetOrderbook ''BTC/USDT'' 100]
   \<and> requests (snd (UpdateOrderbook ex_api ex_deps (ex_c\<lparr>WebsocketOrderbookBufferLimit := 50\<rparr>)
                    ex_pair PerpetualSwap ex_w)) = [ReqGetSwapOrderbook ''BTC-USDT'' 100]"
  by (simp add: UpdateOrderbook_def call_def Let_def Process_def Verify_def crossed_def
      negative_amount_def orderbook_Get_def to_Item_def pair_String_def ex_defs)

text \<open>C5, amended. The requests that \<^verbatim>\<open>UpdateOrderbook\<close> issues are: none when the asset
  type is unsupported or the pair cannot be formatted; otherwise one \<^verbatim>\<open>GetOrderbook\<close> for
  Spot, one \<^verbatim>\<open>GetSwapOrderbook\<close> for PerpetualSwap, for the formatted pair and always at
  the fixed depth 100; none for any other asset type.\<close>

theorem snapshot_depth_is_100:
  "requests (snd (UpdateOrderbook api d c p assetType w)) =
     requests w @
       (if \<not> SupportsAsset d assetType then []
        else case FormatExchangeCurrency d p assetType of
               Inl err \<Rightarrow> []
             | Inr fpair \<Rightarrow>
                 if assetType = Spot then [ReqGetOrderbook (pair_String fpair) 100]
                 else if assetType = PerpetualSwap then [ReqGetSwapOrderbook (pair_String fpair) 100]
                 else [])"
  by (simp add: UpdateOrderbook_def call_def Let_def Process_def orderbook_Get_def
      split: sum.splits option.splits prod.splits)

theorem snapshot_depth_is_100_witness:
  "requests (snd (UpdateOrderbook ex_api ex_deps ex_c ex_pair Spot ex_w)) =
     [ReqGetOrderbook ''BTC/USDT'' 100]"
  using snapshot_depth_is_100 [of ex_api ex_deps ex_c ex_pair Spot ex_w]
  by (simp add: pair_String_def ex_defs)

subsection \<open>Recent trades\<close>

text \<open>C6. A list of trades that \<^verbatim>\<open>GetRecentTrades\<close> returns is sorted ascending by
  timestamp.\<close>

theorem recent_trades_sorted:
  "fst (GetRecentTrades api d c p a w) = Inr trades \<Longrightarrow> sorted (map tr_Timestamp trades)"
  by (auto simp: GetRecentTrades_def call_def Let_def sort_ByDate_def
      split: sum.splits option.splits prod.splits)

text \<open>The example exchange answers with the later trade first.\<close>

theorem recent_trades_sorted_witness:
  "fst (GetRecentTrades ex_api ex_deps ex_c ex_pair Spot ex_w) =
     Inr [to_trade ex_c ex_pair Spot
            \<lparr>ti_Direction = ''buy'', ti_Price = 101, ti_Volume = 2, ti_TradeTime = 10\<rparr>,
          to_trade ex_c ex_pair Spot
            \<lparr>ti_Direction = ''sell'', ti_Price = 100, ti_Volume = 1, ti_TradeTime = 20\<rparr>]
   \<and> sorted (map tr_Timestamp
        [to_trade ex_c ex_pair Spot
            \<lparr>ti_Direction = ''buy'', ti_Price = 101, ti_Volume = 2, ti_TradeTime = 10\<rparr>,
          to_trade ex_c ex_pair Spot
            \<lparr>ti_Direction = ''sell'', ti_Price = 100, ti_Volume = 1, ti_TradeTime = 20\<rparr>])"
proof -
  have h: "fst (GetRecentTrades ex_api ex_deps ex_c ex_pair Spot ex_w) =
     Inr [to_trade ex_c ex_pair Spot
            \<lparr>ti_Direction = ''buy'', ti_Price = 101, ti_Volume = 2, ti_TradeTime = 10\<rparr>,
          to_trade ex_c ex_pair Spot
            \<lparr>ti_Direction = ''sell'', ti_Price = 100, ti_Volume = 1, ti_TradeTime = 20\<rparr>]"
    by (simp add: GetRecentTrades_def call_def Let_def sort_ByDate_def to_trade_def ex_defs)
  show ?thesis
    using h recent_trades_sorted [OF h] by simp
qed

subsection \<open>The configuration surface\<close>

lemma UpdateOrderbook_flag:
  "fst (fst (UpdateOrderbook api d c p a w)) = Some b \<Longrightarrow> VerifyOrderbook b = CanVerifyOrderbook c"
  by (auto simp: UpdateOrderbook_def call_def Let_def Process_def orderbook_Get_def
      split: sum.splits option.splits prod.splits if_splits)

text \<open>C7. \<^verbatim>\<open>SetDefaults\<close> installs the response-check timeout, the limit of outstanding
  responses and the order book buffer limit from the package defaults; every
  \<^verbatim>\<open>WebsocketSetup\<close> that \<^verbatim>\<open>Setup\<close> hands to the websocket has \<open>SortBuffer\<close> set, every
  connection it sets up takes the two response limits of the configuration, and \<^verbatim>\<open>Setup\<close>
  does hand a setup over once the exchange is enabled and its defaults and URL are in place;
  every book that \<^verbatim>\<open>UpdateOrderbook\<close> returns carries \<open>VerifyOrderbook\<close> equal to the
  exchange's \<open>CanVerifyOrderbook\<close>.\<close>

theorem configuration_honored:
  "WebsocketResponseCheckTimeout (SetDefaults d c0) = DefaultWebsocketResponseCheckTimeout d
   \<and> WebsocketResponseMaxLimit (SetDefaults d c0) = DefaultWebsocketResponseMaxLimit d
   \<and> WebsocketOrderbookBufferLimit (SetDefaults d c0) = DefaultWebsocketOrderbookBufferLimit d
   \<and> (\<forall>s. WsSetup s \<in> set (snd (fst (Setup d c exch))) \<longrightarrow> SortBuffer s)
   \<and> (\<forall>cs. WsSetupNewConnection cs \<in> set (snd (fst (Setup d c exch)))
        \<longrightarrow> ResponseCheckTimeout cs = cfg_WebsocketResponseCheckTimeout exch
            \<and> ResponseMaxLimit cs = cfg_WebsocketResponseMaxLimit exch)
   \<and> (cfg_Enabled exch \<and> SetupDefaults d c exch = (c1, None) \<and> GetURL d c1 WebsocketSpot = Inr url
        \<longrightarrow> (\<exists>s. WsSetup s \<in> set (snd (fst (Setup d c exch)))))
   \<and> (\<forall>b. fst (fst (UpdateOrderbook api d c p a w)) = Some b
        \<longrightarrow> VerifyOrderbook b = CanVerifyOrderbook c)"
proof -
  have 1: "WebsocketResponseCheckTimeout (SetDefaults d c0) = DefaultWebsocketResponseCheckTimeout d"
    and 2: "WebsocketResponseMaxLimit (SetDefaults d c0) = DefaultWebsocketResponseMaxLimit d"
    and 3: "WebsocketOrderbookBufferLimit (SetDefaults d c0) = DefaultWebsocketOrderbookBufferLimit d"
    by (simp_all add: SetDefaults_def StoreAssetPairFormat_def Let_def)
  have 4: "\<forall>s. WsSetup s \<in> set (snd (fst (Setup d c exch))) \<longrightarrow> SortBuffer s"
    by (auto simp: Setup_def Let_def split: sum.splits option.splits prod.splits)
  have 7: "\<forall>cs. WsSetupNewConnection cs \<in> set (snd (fst (Setup d c exch)))
        \<longrightarrow> ResponseCheckTimeout cs = cfg_WebsocketResponseCheckTimeout exch
            \<and> ResponseMaxLimit cs = cfg_WebsocketResponseMaxLimit exch"
    by (auto simp: Setup_def Let_def split: sum.splits option.splits prod.splits)
  have 5: "cfg_Enabled exch \<and> SetupDefaults d c exch = (c1, None) \<and> GetURL d c1 WebsocketSpot = Inr url
        \<longrightarrow> (\<exists>s. WsSetup s \<in> set (snd (fst (Setup d c exch))))"
    by (auto simp: Setup_def Let_def split: sum.splits option.splits prod.splits)
  have 6: "\<forall>b. fst (fst (UpdateOrderbook api d c p a w)) = Some b
        \<longrightarrow> VerifyOrderbook b = CanVerifyOrderbook c"
    using UpdateOrderbook_flag by blast
  show ?thesis using 1 2 3 4 5 6 7 by blast
qed

theorem configuration_honored_witness:
  "WebsocketOrderbookBufferLimit (SetDefaults ex_deps ex_c) = 5
   \<and> snd (fst (Setup ex_deps ex_c ex_cfg)) =
       [WsSetup \<lparr>ExchangeConfig = ex_cfg, DefaultURL = ''wss://ws.coinbene.com/stream/ws'',
                 RunningURL = ''wss://ws.coinbene.com/stream/ws'', SortBuffer = True\<rparr>,
        WsSetupNewConnection \<lparr>ResponseCheckTimeout = 30000000, ResponseMaxLimit = 7000000000\<rparr>]
   \<and> SortBuffer \<lparr>ExchangeConfig = ex_cfg, DefaultURL = ''wss://ws.coinbene.com/stream/ws'',
                 RunningURL = ''wss://ws.coinbene.com/stream/ws'', SortBuffer = True\<rparr>
   \<and> (\<exists>b. fst (fst (UpdateOrderbook ex_api ex_deps ex_c ex_pair Spot ex_w)) = Some b
          \<and> VerifyOrderbook b)"
proof -
  have a: "snd (fst (Setup ex_deps ex_c ex_cfg)) =
       [WsSetup \<lparr>ExchangeConfig = ex_cfg, DefaultURL = ''wss://ws.coinbene.com/stream/ws'',
                 RunningURL = ''wss://ws.coinbene.com/stream/ws'', SortBuffer = True\<rparr>,
        WsSetupNewConnection \<lparr>ResponseCheckTimeout = 30000000, ResponseMaxLimit = 7000000000\<rparr>]"
    by (simp add: Setup_def Let_def ex_deps_def ex_cfg_def ex_c_def)
  have b: "fst (fst (UpdateOrderbook ex_api ex_deps ex_c ex_pair Spot ex_w)) \<noteq> None"
    by (simp add: UpdateOrderbook_def call_def Let_def Process_def Verify_def crossed_def
      negative_amount_def orderbook_Get_def to_Item_def pair_String_def ex_defs)
  have c: "CanVerifyOrderbook ex_c" "DefaultWebsocketOrderbookBufferLimit ex_deps = 5"
    by (simp_all add: ex_c_def ex_deps_def)
  show ?thesis
    using a b c
      configuration_honored [where d = ex_deps and ?c0.0 = ex_c and c = ex_c and exch = ex_cfg
        and ?c1.0 = "ex_c\<lparr>Enabled := True\<rparr>" and url = "''wss://ws.coinbene.com/stream/ws''"
        and api = ex_api and p = ex_pair and a = Spot and w = ex_w]
    by auto
qed

subsection \<open>Submitting an order\<close>

text \<open>C8. \<^verbatim>\<open>SubmitOrder\<close> returns an error and issues no request when the submission fails
  validation or its side is neither Buy nor Sell; when the exchange accepts the order the
  response has \<open>IsOrderPlaced\<close> set and carries the exchange's order ID; and a response
  without an error is only ever given for a validated Buy or Sell submission.\<close>

theorem submit_order_checked:
  "((Submit_Validate d s \<noteq> None \<or> (s_Side s \<noteq> Buy \<and> s_Side s \<noteq> Sell))
      \<longrightarrow> snd (fst (SubmitOrder api d s w)) \<noteq> None \<and> snd (SubmitOrder api d s w) = w)
   \<and> (Submit_Validate d s = None \<and> (s_Side s = Buy \<or> s_Side s = Sell)
        \<and> FormatExchangeCurrency d (s_Pair s) Spot = Inr fpair
        \<and> PlaceSpotOrder api (s_Price s) (s_Amount s) (pair_String fpair) (s_Side s) (s_Type s)
              (s_ClientID s) 0 (length (requests w)) = Inr r
      \<longrightarrow> fst (SubmitOrder api d s w) =
            (\<lparr>IsOrderPlaced = True, sr_OrderID = opr_OrderID r\<rparr>, None))
   \<and> (snd (fst (SubmitOrder api d s w)) = None
      \<longrightarrow> IsOrderPlaced (fst (fst (SubmitOrder api d s w)))
          \<and> Submit_Validate d s = None \<and> (s_Side s = Buy \<or> s_Side s = Sell))"
  by (auto simp: SubmitOrder_def call_def Let_def split: sum.splits option.splits prod.splits)

text \<open>A submission with amount 0, one with side "ANY", and an accepted one.\<close>

theorem submit_order_checked_witness:
  "Submit_Validate ex_deps (ex_submit\<lparr>s_Amount := 0\<rparr>) \<noteq> None
   \<and> snd (fst (SubmitOrder ex_api ex_deps (ex_submit\<lparr>s_Amount := 0\<rparr>) ex_w)) \<noteq> None
   \<and> snd (SubmitOrder ex_api ex_deps (ex_submit\<lparr>s_Amount := 0\<rparr>) ex_w) = ex_w
   \<and> s_Side (ex_submit\<lparr>s_Side := ''ANY''\<rparr>) \<noteq> Buy
   \<and> snd (fst (SubmitOrder ex_api ex_deps (ex_submit\<lparr>s_Side := ''ANY''\<rparr>) ex_w)) \<noteq> None
   \<and> snd (SubmitOrder ex_api ex_deps (ex_submit\<lparr>s_Side := ''ANY''\<rparr>) ex_w) = ex_w
   \<and> fst (SubmitOrder ex_api ex_deps ex_submit ex_w) =
       (\<lparr>IsOrderPlaced = True, sr_OrderID = ''1001''\<rparr>, None)"
proof -
  have a: "Submit_Validate ex_deps (ex_submit\<lparr>s_Amount := 0\<rparr>) \<noteq> None"
    by (simp add: ex_deps_def ex_submit_def)
  have b: "s_Side (ex_submit\<lparr>s_Side := ''ANY''\<rparr>) \<noteq> Buy"
    "s_Side (ex_submit\<lparr>s_Side := ''ANY''\<rparr>) \<noteq> Sell"
    by (simp_all add: Buy_def Sell_def)
  have c: "Submit_Validate ex_deps ex_submit = None" "s_Side ex_submit = Buy"
    "FormatExchangeCurrency ex_deps (s_Pair ex_submit) Spot = Inr ex_pair"
    "PlaceSpotOrder ex_api (s_Price ex_submit) (s_Amount ex_submit) (pair_String ex_pair)
       (s_Side ex_submit) (s_Type ex_submit) (s_ClientID ex_submit) 0 (length (requests ex_w))
     = Inr \<lparr>opr_OrderID = ''1001''\<rparr>"
    by (simp_all add: ex_deps_def ex_submit_def ex_pair_def ex_api_def)
  have 1: "snd (fst (SubmitOrder ex_api ex_deps (ex_submit\<lparr>s_Amount := 0\<rparr>) ex_w)) \<noteq> None
      \<and> snd (SubmitOrder ex_api ex_deps (ex_submit\<lparr>s_Amount := 0\<rparr>) ex_w) = ex_w"
    using a submit_order_checked [where d = ex_deps and s = "ex_submit\<lparr>s_Amount := 0\<rparr>"
        and api = ex_api and w = ex_w]
    by blast
  have 2: "snd (fst (SubmitOrder ex_api ex_deps (ex_submit\<lparr>s_Side := ''ANY''\<rparr>) ex_w)) \<noteq> None
      \<and> snd (SubmitOrder ex_api ex_deps (ex_submit\<lparr>s_Side := ''ANY''\<rparr>) ex_w) = ex_w"
    using b submit_order_checked [where d = ex_deps and s = "ex_submit\<lparr>s_Side := ''ANY''\<rparr>"
        and api = ex_api and w = ex_w]
    by blast
  have 3: "fst (SubmitOrder ex_api ex_deps ex_submit ex_w) =
       (\<lparr>IsOrderPlaced = True, sr_OrderID = opr_OrderID \<lparr>opr_OrderID = ''1001''\<rparr>\<rparr>, None)"
    using c submit_order_checked [where d = ex_deps and s = ex_submit and api = ex_api and w = ex_w
        and fpair = ex_pair and r = "\<lparr>opr_OrderID = ''1001''\<rparr>"]
    by blast
  from 3 have 4: "fst (SubmitOrder ex_api ex_deps ex_submit ex_w) =
       (\<lparr>IsOrderPlaced = True, sr_OrderID = ''1001''\<rparr>, None)"
    by simp
  show ?thesis
    using a b(1) 1 2 4 by blast
qed

subsection \<open>Historic candles\<close>

lemma candle_of_row_error: "isl (candle_of_row d row) = row_malformed d row"
  by (simp add: candle_of_row_def row_malformed_def field_fails_def
      split: option.splits sum.splits)

lemma candles_loop_error:
  "isl (candles_loop d rows acc) = list_ex (row_malformed d) rows"
  by (induction rows arbitrary: acc)
     (auto simp: candle_of_row_error [symmetric] split: sum.splits)

lemma candles_loop_length:
  "candles_loop d rows acc = Inr cs \<Longrightarrow> length cs = length acc + length rows"
  by (induction rows arbitrary: acc) (auto split: sum.splits)

text \<open>C9. Once the exchange has answered the candle request: if some row has fewer than
  six fields, or one of its first six fields is not a string or fails to parse,
  \<^verbatim>\<open>GetHistoricCandles\<close> returns the empty item together with an error; otherwise it returns
  no error, one candle per row, and the candles sorted ascending by time.\<close>

theorem historic_candles_rows:
  assumes "ValidateKline d pair a interval = None"
    and "FormatExchangeCurrency d pair PerpetualSwap = Inr fp"
    and "(if a = PerpetualSwap
          then GetSwapKlines api (pair_String fp) start end' (FormatExchangeKlineInterval interval)
          else GetKlines api (pair_String fp) start end' (FormatExchangeKlineInterval interval))
           (length (requests w)) = Inr candles"
  shows "(list_ex (row_malformed d) (Data candles)
            \<longrightarrow> fst (fst (GetHistoricCandles api d c pair a start end' interval w)) = empty_Item
                \<and> snd (fst (GetHistoricCandles api d c pair a start end' interval w)) \<noteq> None)
       \<and> (\<not> list_ex (row_malformed d) (Data candles)
            \<longrightarrow> snd (fst (GetHistoricCandles api d c pair a start end' interval w)) = None
                \<and> sorted (map Time
                     (Candles (fst (fst (GetHistoricCandles api d c pair a start end' interval w)))))
                \<and> length (Candles (fst (fst (GetHistoricCandles api d c pair a start end' interval w))))
                    = length (Data candles))"
proof -
  let ?R = "GetHistoricCandles api d c pair a start end' interval w"
  let ?w1 = "w\<lparr>requests := requests w @
      [if a = PerpetualSwap
       then ReqGetSwapKlines (pair_String fp) start end' (FormatExchangeKlineInterval interval)
       else ReqGetKlines (pair_String fp) start end' (FormatExchangeKlineInterval interval)]\<rparr>"
  let ?ret = "\<lparr>k_Exchange = Name c, k_Pair = pair, k_Asset = a, k_Interval = interval,
               Candles = []\<rparr>"
  have R: "?R = (case candles_loop d (Data candles) [] of
                   Inl err \<Rightarrow> ((empty_Item, Some err), ?w1)
                 | Inr cs \<Rightarrow> ((SortCandlesByTimestamp False (?ret\<lparr>Candles := cs\<rparr>), None), ?w1))"
  proof (cases "a = PerpetualSwap")
    case True
    show ?thesis
      using assms unfolding True by (simp add: GetHistoricCandles_def call_def Let_def)
  next
    case False
    with assms show ?thesis
      by (simp add: GetHistoricCandles_def call_def Let_def)
  qed
  show ?thesis
  proof (cases "candles_loop d (Data candles) []")
    case (Inl e)
    then have m: "list_ex (row_malformed d) (Data candles)"
      using candles_loop_error [of d "Data candles" "[]"] by simp
    show ?thesis
      unfolding R using Inl m by simp
  next
    case (Inr cs)
    then have m: "\<not> list_ex (row_malformed d) (Data candles)"
      using candles_loop_error [of d "Data candles" "[]"] by simp
    have l: "length cs = length (Data candles)"
      using candles_loop_length [OF Inr] by simp
    show ?thesis
      unfolding R using Inr m l by (simp add: SortCandlesByTimestamp_def)
  qed
qed

text \<open>Two well-formed rows in descending order for Spot; a one-field row for
  PerpetualSwap.\<close>

theorem historic_candles_rows_witness:
  "\<not> list_ex (row_malformed ex_deps)
        [[JString ''2021-06-01T00:01:00Z'', JString ''1'', JString ''2'', JString ''1'',
          JString ''2'', JString ''1''],
         [JString ''2021-06-01T00:00:00Z'', JString ''1'', JString ''1'', JString ''1'',
          JString ''1'', JString ''2'']]
   \<and> snd (fst (GetHistoricCandles ex_api ex_deps ex_c ex_pair Spot 0 1 OneHour ex_w)) = None
   \<and> sorted (map Time (Candles (fst (fst
         (GetHistoricCandles ex_api ex_deps ex_c ex_pair Spot 0 1 OneHour ex_w)))))
   \<and> length (Candles (fst (fst
         (GetHistoricCandles ex_api ex_deps ex_c ex_pair Spot 0 1 OneHour ex_w)))) = 2
   \<and> list_ex (row_malformed ex_deps) [[JNumber 1]]
   \<and> fst (GetHistoricCandles ex_api ex_deps ex_c ex_pair PerpetualSwap 0 1 OneHour ex_w) =
        (empty_Item, Some (Error ''unexpected candle data length''))"
proof -
  let ?rows = "[[JString ''2021-06-01T00:01:00Z'', JString ''1'', JString ''2'', JString ''1'',
          JString ''2'', JString ''1''],
         [JString ''2021-06-01T00:00:00Z'', JString ''1'', JString ''1'', JString ''1'',
          JString ''1'', JString ''2'']]"
  have v: "\<And>a. ValidateKline ex_deps ex_pair a OneHour = None"
    and f: "FormatExchangeCurrency ex_deps ex_pair PerpetualSwap = Inr (ex_pair\<lparr>Delimiter := ''-''\<rparr>)"
    by (simp_all add: ex_deps_def PerpetualSwap_def Spot_def)
  have g1: "(if Spot = PerpetualSwap
          then GetSwapKlines ex_api (pair_String (ex_pair\<lparr>Delimiter := ''-''\<rparr>)) 0 1
                 (FormatExchangeKlineInterval OneHour)
          else GetKlines ex_api (pair_String (ex_pair\<lparr>Delimiter := ''-''\<rparr>)) 0 1
                 (FormatExchangeKlineInterval OneHour))
           (length (requests ex_w)) = Inr \<lparr>Data = ?rows\<rparr>"
    by (simp add: ex_api_def Spot_def PerpetualSwap_def)
  have g2: "(if PerpetualSwap = PerpetualSwap
          then GetSwapKlines ex_api (pair_String (ex_pair\<lparr>Delimiter := ''-''\<rparr>)) 0 1
                 (FormatExchangeKlineInterval OneHour)
          else GetKlines ex_api (pair_String (ex_pair\<lparr>Delimiter := ''-''\<rparr>)) 0 1
                 (FormatExchangeKlineInterval OneHour))
           (length (requests ex_w)) = Inr \<lparr>Data = [[JNumber 1]]\<rparr>"
    by (simp add: ex_api_def)
  have m1: "\<not> list_ex (row_malformed ex_deps) ?rows"
    by (simp add: row_malformed_def field_fails_def ex_deps_def)
  have m2: "list_ex (row_malformed ex_deps) [[JNumber 1]]"
    by (simp add: row_malformed_def)
  have 1: "snd (fst (GetHistoricCandles ex_api ex_deps ex_c ex_pair Spot 0 1 OneHour ex_w)) = None
   \<and> sorted (map Time (Candles (fst (fst
         (GetHistoricCandles ex_api ex_deps ex_c ex_pair Spot 0 1 OneHour ex_w)))))
   \<and> length (Candles (fst (fst
         (GetHistoricCandles ex_api ex_deps ex_c ex_pair Spot 0 1 OneHour ex_w)))) = 2"
    using m1 historic_candles_rows [OF v f g1, of ex_c] by simp
  have 2: "fst (fst (GetHistoricCandles ex_api ex_deps ex_c ex_pair PerpetualSwap 0 1 OneHour ex_w))
             = empty_Item
     \<and> snd (fst (GetHistoricCandles ex_api ex_deps ex_c ex_pair PerpetualSwap 0 1 OneHour ex_w))
             \<noteq> None"
    using m2 historic_candles_rows [OF v f g2, of ex_c] by simp
  have 3: "snd (fst (GetHistoricCandles ex_api ex_deps ex_c ex_pair PerpetualSwap 0 1 OneHour ex_w))
             = Some (Error ''unexpected candle data length'')"
    by (simp add: GetHistoricCandles_def call_def candle_of_row_def ex_deps_def ex_api_def
        PerpetualSwap_def)
  show ?thesis
    using m1 m2 1 2 3 by (simp add: prod_eq_iff)
qed

subsection \<open>Cancelling all orders\<close>

lemma cancel_loop_requests:
  "requests (snd (cancel_loop api xs m w)) = requests w @ map (\<lambda>x. ReqCancelSpotOrder (OrderID x)) xs"
  by (induction xs arbitrary: m w) (auto simp: call_def split: sum.splits)

lemma cancel_loop_dom:
  "dom (fst (cancel_loop api xs m w)) = dom m \<union> OrderID ` set xs"
  by (induction xs arbitrary: m w) (auto simp: call_def split: sum.splits)

lemma cancel_loop_keep:
  "k \<notin> OrderID ` set xs \<Longrightarrow> fst (cancel_loop api xs m w) k = m k"
  by (induction xs arbitrary: m w) (auto simp: call_def split: sum.splits)

lemma cancel_loop_entry:
  assumes "i < length xs" "\<forall>j. i < j \<and> j < length xs \<longrightarrow> OrderID (xs ! j) \<noteq> OrderID (xs ! i)"
  shows "fst (cancel_loop api xs m w) (OrderID (xs ! i)) =
           Some (if isl (CancelSpotOrder api (OrderID (xs ! i)) (length (requests w) + i))
                 then ''Failed'' else ''Success'')"
  using assms
proof (induction xs arbitrary: m w i)
  case Nil
  then show ?case by simp
next
  case (Cons x xs)
  show ?case
  proof (cases i)
    case 0
    have "OrderID x \<notin> OrderID ` set xs"
    proof
      assume "OrderID x \<in> OrderID ` set xs"
      then obtain j where "j < length xs" "OrderID (xs ! j) = OrderID x"
        by (metis imageE in_set_conv_nth)
      with Cons.prems(2) [rule_format, of "Suc j"] 0 show False by simp
    qed
    then show ?thesis using 0
      by (simp add: call_def cancel_loop_keep split: sum.splits)
  next
    case (Suc k)
    have a: "k < length xs" using Cons.prems(1) Suc by simp
    have b: "\<forall>j. k < j \<and> j < length xs \<longrightarrow> OrderID (xs ! j) \<noteq> OrderID (xs ! k)"
      using Cons.prems(2) Suc by (metis Suc_less_eq length_Cons nth_Cons_Suc)
    show ?thesis using Suc Cons.IH [OF a b]
      by (simp add: call_def split: sum.splits)
  qed
qed

text \<open>C10. Once the open orders have been fetched, \<^verbatim>\<open>CancelAllOrders\<close> returns no error
  whatever the cancel requests answer; the keys of the returned \<open>Status\<close> map are exactly
  the IDs of the open orders; the entry of an order's ID is "Success" when its cancel
  request succeeded and "Failed" when it failed (were an ID listed twice, the later
  request decides); and one cancel request is issued per order.\<close>

theorem cancel_all_never_fails_per_order:
  assumes "Cancel_Validate d oc = None"
    and "FormatExchangeCurrency d (oc_Pair oc) (oc_AssetType oc) = Inr fpair"
    and "FetchOpenSpotOrders api (pair_String fpair) (length (requests w)) = Inr orders"
  shows "snd (fst (CancelAllOrders api d oc w)) = None
       \<and> dom (Status (fst (fst (CancelAllOrders api d oc w)))) = OrderID ` set orders
       \<and> (\<forall>i < length orders.
            (\<forall>j. i < j \<and> j < length orders \<longrightarrow> OrderID (orders ! j) \<noteq> OrderID (orders ! i))
            \<longrightarrow> Status (fst (fst (CancelAllOrders api d oc w))) (OrderID (orders ! i)) =
                  Some (if isl (CancelSpotOrder api (OrderID (orders ! i))
                                  (length (requests w) + 1 + i))
                        then ''Failed'' else ''Success''))
       \<and> requests (snd (CancelAllOrders api d oc w)) =
           requests w @ ReqFetchOpenSpotOrders (pair_String fpair)
             # map (\<lambda>x. ReqCancelSpotOrder (OrderID x)) orders"
proof -
  let ?w1 = "w\<lparr>requests := requests w @ [ReqFetchOpenSpotOrders (pair_String fpair)]\<rparr>"
  have r: "CancelAllOrders api d oc w =
      ((\<lparr>Status = fst (cancel_loop api orders Map.empty ?w1)\<rparr>, None),
       snd (cancel_loop api orders Map.empty ?w1))"
    using assms by (simp add: CancelAllOrders_def call_def Let_def split: prod.splits)
  show ?thesis
    unfolding r
    using cancel_loop_entry [where xs = orders and api = api and m = Map.empty and w = ?w1]
    by (simp add: cancel_loop_dom cancel_loop_requests)
qed

text \<open>Two open orders; the exchange cancels the first and refuses the second.\<close>

theorem cancel_all_never_fails_per_order_witness:
  "snd (fst (CancelAllOrders ex_api ex_deps ex_cancel ex_w)) = None
   \<and> dom (Status (fst (fst (CancelAllOrders ex_api ex_deps ex_cancel ex_w)))) = {''7'', ''8''}
   \<and> Status (fst (fst (CancelAllOrders ex_api ex_deps ex_cancel ex_w))) ''7'' = Some ''Success''
   \<and> Status (fst (fst (CancelAllOrders ex_api ex_deps ex_cancel ex_w))) ''8'' = Some ''Failed''
   \<and> requests (snd (CancelAllOrders ex_api ex_deps ex_cancel ex_w)) =
       [ReqFetchOpenSpotOrders ''BTC/USDT'', ReqCancelSpotOrder ''7'', ReqCancelSpotOrder ''8'']"
proof -
  let ?os = "[\<lparr>OrderID = ''7''\<rparr>, \<lparr>OrderID = ''8''\<rparr>]"
  have v: "Cancel_Validate ex_deps ex_cancel = None"
    and f: "FormatExchangeCurrency ex_deps (oc_Pair ex_cancel) (oc_AssetType ex_cancel) = Inr ex_pair"
    and o: "FetchOpenSpotOrders ex_api (pair_String ex_pair) (length (requests ex_w)) = Inr ?os"
    by (simp_all add: ex_deps_def ex_cancel_def ex_pair_def ex_api_def)
  note t = cancel_all_never_fails_per_order [OF v f o]
  have q: "Status (fst (fst (CancelAllOrders ex_api ex_deps ex_cancel ex_w))) (OrderID (?os ! i)) =
      Some (if isl (CancelSpotOrder ex_api (OrderID (?os ! i)) (length (requests ex_w) + 1 + i))
            then ''Failed'' else ''Success'')"
    if "i < length ?os"
      and "\<forall>j. i < j \<and> j < length ?os \<longrightarrow> OrderID (?os ! j) \<noteq> OrderID (?os ! i)" for i
    using t that by blast
  have p0: "\<forall>j. 0 < j \<and> j < length ?os \<longrightarrow> OrderID (?os ! j) \<noteq> OrderID (?os ! 0)"
    by (auto simp: less_Suc_eq)
  have p1: "\<forall>j. 1 < j \<and> j < length ?os \<longrightarrow> OrderID (?os ! j) \<noteq> OrderID (?os ! 1)"
    by (auto simp: less_Suc_eq)
  have 0: "Status (fst (fst (CancelAllOrders ex_api ex_deps ex_cancel ex_w))) ''7'' =
      Some (if isl (CancelSpotOrder ex_api ''7'' (length (requests ex_w) + 1 + 0))
            then ''Failed'' else ''Success'')"
    using q [of 0, OF _ p0] by simp
  have 1: "Status (fst (fst (CancelAllOrders ex_api ex_deps ex_cancel ex_w))) ''8'' =
      Some (if isl (CancelSpotOrder ex_api ''8'' (length (requests ex_w) + 1 + 1))
            then ''Failed'' else ''Success'')"
    using q [of 1, OF _ p1] by simp
  have c: "\<not> isl (CancelSpotOrder ex_api ''7'' n)" "isl (CancelSpotOrder ex_api ''8'' n)" for n
    by (simp_all add: ex_api_def)
  have d: "snd (fst (CancelAllOrders ex_api ex_deps ex_cancel ex_w)) = None"
    "dom (Status (fst (fst (CancelAllOrders ex_api ex_deps ex_cancel ex_w)))) = OrderID ` set ?os"
    "requests (snd (CancelAllOrders ex_api ex_deps ex_cancel ex_w)) =
       requests ex_w @ ReqFetchOpenSpotOrders (pair_String ex_pair)
         # map (\<lambda>x. ReqCancelSpotOrder (OrderID x)) ?os"
    using t by blast+
  show ?thesis
    using d 0 1 c by (simp add: pair_String_def ex_pair_def ex_w_def)
qed

section \<open>Properties of the synchronizer\<close>

subsection \<open>The scenarios of the spec\<close>

text \<open>Scenario A: snapshot at sequence 100 with bid (10000, 1); update 101 sets the bid's
  amount to 0 and the bid side is empty. Scenario B: update 103 arrives before 102 and
  both apply in order. Scenario C: with buffer limit 2 and the gap at 104 open, the
  third buffered update forces Resyncing and the book is reported as not yet synced.\<close>

lemma scenario_A:
  "bids (book (deliver_all 5
      [Subscribe,
       Snapshot \<lparr>bids = [ex_level 10000 1], asks = [], sequence = 100, verify = True\<rparr>,
       Update (ex_upd 101 Bid 10000 0)]
      \<lparr>phase = Uninitialized, book = no_book, buffer = []\<rparr>)) = []"
  by (simp add: sync_defs)

lemma scenario_B:
  "sequence (book (deliver_all 5
      [Update (ex_upd 103 Bid 10000 2), Update (ex_upd 102 Bid 10000 3)]
      (ex_sync\<lparr>book := book ex_sync\<lparr>sequence := 101\<rparr>\<rparr>))) = 103"
  by (simp add: sync_defs)

lemma scenario_C:
  "phase (deliver_all 2
      [Update (ex_upd 105 Bid 10000 2), Update (ex_upd 106 Bid 10000 3)]
      (ex_sync\<lparr>book := book ex_sync\<lparr>sequence := 103\<rparr>\<rparr>)) = Synced
   \<and> GetBook (deliver_all 2
      [Update (ex_upd 105 Bid 10000 2), Update (ex_upd 106 Bid 10000 3),
       Update (ex_upd 107 Bid 10000 4)]
      (ex_sync\<lparr>book := book ex_sync\<lparr>sequence := 103\<rparr>\<rparr>)) = None"
  by (simp add: sync_defs)

subsection \<open>Replaying in sequence order\<close>


























subsection \<open>Confluence\<close>



end
